theory Spec2Isabelle
  imports Main "HOL-Library.AList"
begin

section \<open>JavaScript values\<close>

text \<open>
  The two classes of the repository, \<^verbatim>\<open>ElectronicBilling\<close> and \<^verbatim>\<open>RegisterScopeFour\<close>, move
  plain data between the caller and a SOAP transport.  The data are modelled as trees:
  the primitives, arrays and objects.  \<open>Num n\<close> is the number whose value is the integer
  \<open>n\<close> (the voucher numbers, codes and dates the services exchange are integers); the other
  numbers of the model are \<open>NaN\<close> and the two infinities, and fractions are outside it.
  \<open>Array xs ps\<close> is the array with the elements \<open>xs\<close> and the named properties \<open>ps\<close>.
  \<open>Object ps proto\<close> is the object with the own properties \<open>ps\<close>, in insertion order, and
  the prototype \<open>proto\<close>: \<open>None\<close> for \<^verbatim>\<open>Object.prototype\<close>, as every object literal and every
  parsed object has it, \<open>Some Null\<close> for no prototype, and \<open>Some p\<close> for the object \<open>p\<close>.
  All properties are data properties; objects have no methods of their own.
\<close>

datatype jsval =
    Undefined
  | Null
  | Bool bool
  | NaN
  | Infinity
  | NegInfinity
  | Num int
  | Str string
  | Array "jsval list" "(string \<times> jsval) list"
  | Object "(string \<times> jsval) list" "jsval option"

type_synonym obj = "(string \<times> jsval) list"

text \<open>An array without named properties, and an object whose prototype is \<^verbatim>\<open>Object.prototype\<close>.\<close>

abbreviation Arr :: "jsval list \<Rightarrow> jsval" where
  "Arr xs \<equiv> Array xs []"

abbreviation Obj :: "obj \<Rightarrow> jsval" where
  "Obj ps \<equiv> Object ps None"

text \<open>
  A thrown value.  \<open>err_code\<close> is what \<^verbatim>\<open>err.code\<close> reads and \<open>err_cause\<close> what
  \<^verbatim>\<open>err.cause\<close> reads; \<open>Undefined\<close> stands for a property the error does not have.
\<close>

record js_error =
  err_name :: string
  err_message :: string
  err_code :: jsval
  err_cause :: jsval

definition TypeError :: "string \<Rightarrow> js_error" where
  "TypeError msg =
     \<lparr> err_name = ''TypeError'', err_message = msg, err_code = Undefined, err_cause = Undefined \<rparr>"

text \<open>
  Sequencing of steps that may throw: \<open>andThen\<close> for two steps, \<open>sequence\<close> for a list of
  steps done from left to right.
\<close>

definition andThen :: "'e + 'a \<Rightarrow> ('a \<Rightarrow> 'e + 'b) \<Rightarrow> 'e + 'b" where
  "andThen m f = (case m of Inl e \<Rightarrow> Inl e | Inr x \<Rightarrow> f x)"

fun sequence :: "('e + 'a) list \<Rightarrow> 'e + 'a list" where
  "sequence [] = Inr []"
| "sequence (m # ms) = andThen m (\<lambda>x. andThen (sequence ms) (\<lambda>xs. Inr (x # xs)))"

subsection \<open>Truthiness, property access, assignment\<close>

fun truthy :: "jsval \<Rightarrow> bool" where
  "truthy Undefined = False"
| "truthy Null = False"
| "truthy (Bool b) = b"
| "truthy NaN = False"
| "truthy Infinity = True"
| "truthy NegInfinity = True"
| "truthy (Num n) = (n \<noteq> 0)"
| "truthy (Str s) = (s \<noteq> [])"
| "truthy (Array xs ps) = True"
| "truthy (Object ps proto) = True"

fun isArray :: "jsval \<Rightarrow> bool" where
  "isArray (Array xs ps) = True"
| "isArray v = False"

definition lookup :: "obj \<Rightarrow> string \<Rightarrow> jsval" where
  "lookup ps k = (case map_of ps k of Some v \<Rightarrow> v | None \<Rightarrow> Undefined)"

text \<open>
  The value of the property \<open>k\<close> of a value that is neither \<^verbatim>\<open>undefined\<close> nor \<^verbatim>\<open>null\<close>, for
  the named keys the source reads (none of them is a built-in property, an array index or
  \<^verbatim>\<open>__proto__\<close>): the own property of an object, or else the property its prototype has; the
  named property of an array; \<^verbatim>\<open>undefined\<close> on a primitive.
\<close>

fun get_prop :: "jsval \<Rightarrow> string \<Rightarrow> jsval" where
  "get_prop (Object ps None) k = lookup ps k"
| "get_prop (Object ps (Some p)) k =
     (case map_of ps k of Some v \<Rightarrow> v | None \<Rightarrow> get_prop p k)"
| "get_prop (Array xs ps) k = lookup ps k"
| "get_prop v k = Undefined"

text \<open>\<^verbatim>\<open>v.k\<close> and \<^verbatim>\<open>v["k"]\<close>: a TypeError on \<^verbatim>\<open>undefined\<close> and \<^verbatim>\<open>null\<close>.\<close>

fun get :: "jsval \<Rightarrow> string \<Rightarrow> js_error + jsval" where
  "get Undefined k =
     Inl (TypeError (''Cannot read properties of undefined (reading '' @ [CHR 0x27] @ k @ [CHR 0x27] @ '')''))"
| "get Null k =
     Inl (TypeError (''Cannot read properties of null (reading '' @ [CHR 0x27] @ k @ [CHR 0x27] @ '')''))"
| "get v k = Inr (get_prop v k)"

text \<open>
  \<^verbatim>\<open>new Error(message, options)\<close>.  The second parameter of the built-in constructor is
  an options bag: the constructor reads its \<^verbatim>\<open>cause\<close> property when it is an object that
  has one, and nothing else.  It never creates a \<^verbatim>\<open>code\<close> property.
\<close>

definition new_Error :: "string \<Rightarrow> jsval \<Rightarrow> js_error" where
  "new_Error msg options =
     \<lparr> err_name = ''Error'', err_message = msg, err_code = Undefined,
       err_cause = get_prop options ''cause'' \<rparr>"

text \<open>\<^verbatim>\<open>v[0]\<close>, used by the source only behind \<^verbatim>\<open>Array.isArray(v)\<close>.\<close>

fun first :: "jsval \<Rightarrow> js_error + jsval" where
  "first Undefined = Inl (TypeError ''Cannot read properties of undefined (reading 0)'')"
| "first Null = Inl (TypeError ''Cannot read properties of null (reading 0)'')"
| "first (Array [] ps) = Inr Undefined"
| "first (Array (x # xs) ps) = Inr x"
| "first v = Inr Undefined"

text \<open>
  Writing the property \<open>k\<close> of the object with own properties \<open>ps\<close> and prototype \<open>proto\<close>.
  The own property is created or reassigned, with one exception: for an object that has no
  own property \<^verbatim>\<open>__proto__\<close>, the key \<^verbatim>\<open>__proto__\<close> is the accessor of \<^verbatim>\<open>Object.prototype\<close>, when
  the prototype chain leads there without meeting a property of that name.  Its setter
  makes an object, an array or \<^verbatim>\<open>null\<close> the new prototype and ignores every other value.
\<close>

fun reaches_accessor :: "jsval option \<Rightarrow> bool" where
  "reaches_accessor None = True"
| "reaches_accessor (Some (Object ps proto)) = (map_of ps ''__proto__'' = None \<and> reaches_accessor proto)"
| "reaches_accessor (Some (Array xs ps)) = (map_of ps ''__proto__'' = None)"
| "reaches_accessor (Some v) = False"

fun is_object :: "jsval \<Rightarrow> bool" where
  "is_object (Object ps proto) = True"
| "is_object (Array xs ps) = True"
| "is_object v = False"

definition set_prop :: "obj \<times> jsval option \<Rightarrow> string \<Rightarrow> jsval \<Rightarrow> obj \<times> jsval option" where
  "set_prop ob k x =
     (case ob of (ps, proto) \<Rightarrow>
        if k = ''__proto__'' \<and> map_of ps k = None \<and> reaches_accessor proto
        then (ps, if is_object x \<or> x = Null then Some x else proto)
        else (AList.update k x ps, proto))"

text \<open>
  \<^verbatim>\<open>v.k = x\<close> in strict mode (a class body always is): the write throws on \<^verbatim>\<open>undefined\<close>,
  \<^verbatim>\<open>null\<close> and the primitives.  On an array the key is a named property (the source writes
  no index, \<^verbatim>\<open>length\<close> or \<^verbatim>\<open>__proto__\<close>).
\<close>

fun put :: "jsval \<Rightarrow> string \<Rightarrow> jsval \<Rightarrow> js_error + jsval" where
  "put (Object ps proto) k x = (case set_prop (ps, proto) k x of (ps', proto') \<Rightarrow> Inr (Object ps' proto'))"
| "put (Array xs ps) k x = Inr (Array xs (AList.update k x ps))"
| "put Undefined k x =
     Inl (TypeError (''Cannot set properties of undefined (setting '' @ [CHR 0x27] @ k @ [CHR 0x27] @ '')''))"
| "put Null k x =
     Inl (TypeError (''Cannot set properties of null (setting '' @ [CHR 0x27] @ k @ [CHR 0x27] @ '')''))"
| "put v k x = Inl (TypeError (''Cannot create property '' @ [CHR 0x27] @ k @ [CHR 0x27] @ '' on a primitive''))"

text \<open>
  \<^verbatim>\<open>Object.assign(target, source)\<close>: every own key of the source, in order, is read from
  the source and written to the target, as an assignment \<^verbatim>\<open>target[k] = source[k]\<close> does.  An
  own key \<^verbatim>\<open>__proto__\<close> of the source (an object made by \<^verbatim>\<open>JSON.parse\<close> can have one) goes
  through the setter, so the target gets a prototype and no property.
\<close>

definition Object_assign :: "obj \<times> jsval option \<Rightarrow> obj \<Rightarrow> obj \<times> jsval option" where
  "Object_assign target source =
     fold (\<lambda>k t. set_prop t k (lookup source k)) (map fst source) target"

subsection \<open>Conversions to string and to number\<close>

function show_nat :: "nat \<Rightarrow> string" where
  "show_nat n =
     (if n < 10 then [''0123456789'' ! n]
      else show_nat (n div 10) @ [''0123456789'' ! (n mod 10)])"
  by pat_completeness auto
termination
  by (relation "measure id") auto

declare show_nat.simps [simp del]

definition show_int :: "int \<Rightarrow> string" where
  "show_int i = (if i < 0 then CHR ''-'' # show_nat (nat (- i)) else show_nat (nat i))"

fun join :: "string list \<Rightarrow> string" where
  "join [] = []"
| "join [s] = s"
| "join (s # t # ss) = s @ '','' @ join (t # ss)"

definition is_digit :: "char \<Rightarrow> bool" where
  "is_digit c = (c \<in> set ''0123456789'')"

definition digit_val :: "char \<Rightarrow> nat" where
  "digit_val c = of_char c - 48"

definition read_nat :: "string \<Rightarrow> nat" where
  "read_nat s = foldl (\<lambda>a c. 10 * a + digit_val c) 0 s"

text \<open>
  The numbers of the code are IEEE doubles.  An integer below \<open>2 ^ 53\<close> in magnitude is a
  double; a larger one is rounded to 53 significant bits, a tie to the even neighbour, and
  to an infinity from \<open>2 ^ 1024\<close> on.  \<open>to_double x\<close> is the double nearest to the integer \<open>x\<close>.
\<close>

function bits :: "nat \<Rightarrow> nat" where
  "bits n = (if n = 0 then 0 else Suc (bits (n div 2)))"
  by pat_completeness auto
termination
  by (relation "measure id") auto

declare bits.simps [simp del]

definition to_double :: "int \<Rightarrow> jsval" where
  "to_double x =
     (let m = nat \<bar>x\<bar>
      in if m < 9007199254740992 then Num x
         else
           let e = bits m - 53;
               q = m div 2 ^ e;
               r = m mod 2 ^ e;
               h = 2 ^ (e - 1);
               q' = (if h < r \<or> (r = h \<and> odd q) then q + 1 else q);
               y = q' * 2 ^ e
           in if 2 ^ 1024 \<le> y then (if x < 0 then NegInfinity else Infinity)
              else Num (if x < 0 then - int y else int y))"

text \<open>
  The number a string converts to: the empty string is 0, a decimal integer literal with
  an optional sign is its value, every other string is \<open>NaN\<close> here.
\<close>

definition str_to_number :: "string \<Rightarrow> jsval" where
  "str_to_number s =
     (if s = [] then Num 0
      else if list_all is_digit s then to_double (int (read_nat s))
      else if hd s = CHR ''-'' \<and> tl s \<noteq> [] \<and> list_all is_digit (tl s)
        then to_double (- int (read_nat (tl s)))
      else if hd s = CHR ''+'' \<and> tl s \<noteq> [] \<and> list_all is_digit (tl s)
        then to_double (int (read_nat (tl s)))
      else NaN)"

text \<open>
  The string and the number of a primitive.  A number is printed as the decimal digits of
  its integer, which is what the code prints for the integers below \<open>2 ^ 53\<close> in magnitude.
\<close>

fun prim_string :: "jsval \<Rightarrow> string" where
  "prim_string Undefined = ''undefined''"
| "prim_string Null = ''null''"
| "prim_string (Bool b) = (if b then ''true'' else ''false'')"
| "prim_string NaN = ''NaN''"
| "prim_string Infinity = ''Infinity''"
| "prim_string NegInfinity = ''-Infinity''"
| "prim_string (Num n) = show_int n"
| "prim_string (Str s) = s"
| "prim_string v = []"

fun prim_number :: "jsval \<Rightarrow> jsval" where
  "prim_number Undefined = NaN"
| "prim_number Null = Num 0"
| "prim_number (Bool b) = Num (if b then 1 else 0)"
| "prim_number (Str s) = str_to_number s"
| "prim_number v = (if is_object v then NaN else v)"

text \<open>
  An object or an array is converted through its \<^verbatim>\<open>toString\<close> method; \<^verbatim>\<open>valueOf\<close>, tried
  first or second, never gives a primitive, since the built-in one returns the object and a
  data property of that name is not a function.  The method is looked up along the
  prototype chain, which ends in \<^verbatim>\<open>Object.prototype\<close>, in \<^verbatim>\<open>Array.prototype\<close> (for an array,
  and for an object that inherits from an array) or in nothing (\<open>base_of\<close>).  A data property
  \<^verbatim>\<open>toString\<close> on the way is not a function, and neither is a missing one: the conversion
  throws.  \<^verbatim>\<open>Object.prototype.toString\<close> gives \<^verbatim>\<open>[object Object]\<close>.
  \<^verbatim>\<open>Array.prototype.toString\<close> calls \<^verbatim>\<open>join\<close>, and \<^verbatim>\<open>Object.prototype.toString\<close> if a data
  property hides \<^verbatim>\<open>join\<close>; \<^verbatim>\<open>join\<close> reads \<^verbatim>\<open>length\<close> and the elements \<^verbatim>\<open>0\<close>, \<^verbatim>\<open>1\<close>, ... (\<open>length_of\<close>,
  \<open>element\<close>) and converts each element other than \<^verbatim>\<open>undefined\<close> and \<^verbatim>\<open>null\<close> in turn.
\<close>

datatype base = ObjectPrototype | ArrayPrototype | NoPrototype

fun base_of :: "jsval \<Rightarrow> base" where
  "base_of (Array xs ps) = ArrayPrototype"
| "base_of (Object ps None) = ObjectPrototype"
| "base_of (Object ps (Some p)) = base_of p"
| "base_of v = NoPrototype"

fun has_prop :: "jsval \<Rightarrow> string \<Rightarrow> bool" where
  "has_prop (Object ps None) k = (map_of ps k \<noteq> None)"
| "has_prop (Object ps (Some p)) k = (map_of ps k \<noteq> None \<or> has_prop p k)"
| "has_prop (Array xs ps) k = (map_of ps k \<noteq> None)"
| "has_prop v k = False"

fun element :: "jsval \<Rightarrow> nat \<Rightarrow> jsval" where
  "element (Array xs ps) i = (if i < length xs then xs ! i else Undefined)"
| "element (Object ps None) i = lookup ps (show_nat i)"
| "element (Object ps (Some p)) i =
     (case map_of ps (show_nat i) of Some x \<Rightarrow> x | None \<Rightarrow> element p i)"
| "element v i = Undefined"

fun length_of :: "jsval \<Rightarrow> jsval" where
  "length_of (Array xs ps) = Num (int (length xs))"
| "length_of (Object ps None) = lookup ps ''length''"
| "length_of (Object ps (Some p)) =
     (case map_of ps ''length'' of Some x \<Rightarrow> x | None \<Rightarrow> length_of p)"
| "length_of v = Undefined"

text \<open>\<^verbatim>\<open>ToLength\<close> of a number.\<close>

fun to_length :: "jsval \<Rightarrow> nat" where
  "to_length (Num n) = nat (min n 9007199254740991)"
| "to_length Infinity = 9007199254740991"
| "to_length v = 0"

definition not_primitive :: js_error where
  "not_primitive = TypeError ''Cannot convert object to primitive value''"

text \<open>\<^verbatim>\<open>String(v)\<close>, the conversion of template literals and of \<^verbatim>\<open>+\<close>.\<close>

function to_string :: "jsval \<Rightarrow> js_error + string" where
  "to_string v =
     (if \<not> is_object v then Inr (prim_string v)
      else if has_prop v ''toString'' then Inl not_primitive
      else case base_of v of
        NoPrototype \<Rightarrow> Inl not_primitive
      | ObjectPrototype \<Rightarrow> Inr ''[object Object]''
      | ArrayPrototype \<Rightarrow>
          if has_prop v ''join''
          then Inr (if isArray v then ''[object Array]'' else ''[object Object]'')
          else
            andThen (if is_object (length_of v)
                     then andThen (to_string (length_of v)) (\<lambda>s. Inr (to_length (str_to_number s)))
                     else Inr (to_length (prim_number (length_of v)))) (\<lambda>len.
            andThen (sequence (map (\<lambda>i. if is_object (element v i) then to_string (element v i)
                                         else if element v i = Undefined \<or> element v i = Null then Inr []
                                         else Inr (prim_string (element v i))) [0..<len]))
              (\<lambda>parts. Inr (join parts))))"
  by pat_completeness auto
termination
proof (relation "measure size")
  have in_list: "size x < Suc (size_list size xs)" if "x \<in> set xs" for x :: jsval and xs
    using that by (induction xs) auto
  have in_props: "size x < Suc (size_list (size_prod (\<lambda>x. 0) size) ps)"
    if "map_of ps k = Some x" for x :: jsval and ps and k :: string
    using that by (induction ps) (auto split: if_splits)
  have looked_up: "size (lookup ps k) < Suc (size_list (size_prod (\<lambda>x. 0) size) ps)"
    if "is_object (lookup ps k)" for ps k
    using that in_props [of ps k] by (cases "map_of ps k") (auto simp: lookup_def)
  have size_element: "size (element v i) < size v" if "is_object (element v i)" for v i
    using that
  proof (induction v i rule: element.induct)
    case (1 xs ps i)
    then show ?case using in_list [of "xs ! i" xs] by (auto split: if_splits)
  next
    case (2 ps i)
    then show ?case using looked_up [of ps "show_nat i"] by auto
  next
    case (3 ps p i)
    then show ?case using in_props [of ps "show_nat i"] by (auto split: option.splits)
  qed auto
  have size_length_of: "size (length_of v) < size v" if "is_object (length_of v)" for v
    using that
  proof (induction v rule: length_of.induct)
    case (2 ps)
    then show ?case using looked_up [of ps "''length''"] by auto
  next
    case (3 ps p)
    then show ?case using in_props [of ps "''length''"] by (auto split: option.splits)
  qed auto
  show "wf (measure size)"
    by simp
  show "(length_of v, v) \<in> measure size"
    if "\<not> \<not> is_object v" "is_object (length_of v)" for v
    using that size_length_of by simp
  show "(element v i, v) \<in> measure size"
    if "is_object (element v i)" for v i
    using that size_element by simp
qed

declare to_string.simps [simp del]

text \<open>\<^verbatim>\<open>Number(v)\<close>, and the conversion to a primitive that \<^verbatim>\<open>+\<close> starts with.\<close>

definition to_number :: "jsval \<Rightarrow> js_error + jsval" where
  "to_number v =
     (if is_object v then andThen (to_string v) (\<lambda>s. Inr (str_to_number s))
      else Inr (prim_number v))"

definition to_primitive :: "jsval \<Rightarrow> js_error + jsval" where
  "to_primitive v = (if is_object v then andThen (to_string v) (\<lambda>s. Inr (Str s)) else Inr v)"

text \<open>The sum and the negation of two numbers, as doubles.\<close>

fun num_add :: "jsval \<Rightarrow> jsval \<Rightarrow> jsval" where
  "num_add (Num x) (Num y) = to_double (x + y)"
| "num_add (Num x) Infinity = Infinity"
| "num_add (Num x) NegInfinity = NegInfinity"
| "num_add Infinity (Num y) = Infinity"
| "num_add Infinity Infinity = Infinity"
| "num_add NegInfinity (Num y) = NegInfinity"
| "num_add NegInfinity NegInfinity = NegInfinity"
| "num_add a b = NaN"

fun num_neg :: "jsval \<Rightarrow> jsval" where
  "num_neg (Num x) = Num (- x)"
| "num_neg Infinity = NegInfinity"
| "num_neg NegInfinity = Infinity"
| "num_neg a = NaN"

text \<open>
  \<^verbatim>\<open>a - b\<close> and \<^verbatim>\<open>a + b\<close>.  Both convert the left operand first; \<^verbatim>\<open>+\<close> joins the strings of the
  two primitives when one of them is a string, and adds their numbers otherwise.
\<close>

definition js_minus :: "jsval \<Rightarrow> jsval \<Rightarrow> js_error + jsval" where
  "js_minus a b =
     andThen (to_number a) (\<lambda>x. andThen (to_number b) (\<lambda>y. Inr (num_add x (num_neg y))))"

fun is_string :: "jsval \<Rightarrow> bool" where
  "is_string (Str s) = True"
| "is_string v = False"

definition js_plus :: "jsval \<Rightarrow> jsval \<Rightarrow> js_error + jsval" where
  "js_plus a b =
     andThen (to_primitive a) (\<lambda>p. andThen (to_primitive b) (\<lambda>q.
       Inr (if is_string p \<or> is_string q then Str (prim_string p @ prim_string q)
            else num_add (prim_number p) (prim_number q))))"

subsection \<open>Strings: searching and replacing\<close>

text \<open>\<^verbatim>\<open>s.indexOf(pat)\<close>: the first position at which \<open>pat\<close> occurs in \<open>s\<close>, or -1.\<close>

fun indexOf :: "string \<Rightarrow> string \<Rightarrow> int" where
  "indexOf [] pat = (if pat = [] then 0 else - 1)"
| "indexOf (c # cs) pat =
     (if take (length pat) (c # cs) = pat then 0
      else (let i = indexOf cs pat in if i = - 1 then - 1 else i + 1))"

text \<open>
  \<^verbatim>\<open>s.replace(/(\d{4})(\d{2})(\d{2})/, (string, year, month, day) => `${year}-${month}-${day}`)\<close>:
  the leftmost run of eight decimal digits is replaced, the rest of the string is kept.
\<close>

fun replace_date :: "string \<Rightarrow> string" where
  "replace_date [] = []"
| "replace_date (c # cs) =
     (if 8 \<le> length (c # cs) \<and> list_all is_digit (take 8 (c # cs))
      then take 4 (c # cs) @ ''-'' @ take 2 (drop 4 (c # cs)) @ ''-'' @ take 2 (drop 6 (c # cs))
           @ drop 8 (c # cs)
      else c # replace_date cs)"

text \<open>
  \<^verbatim>\<open>v.toString()\<close>: the method call throws on \<^verbatim>\<open>undefined\<close> and \<^verbatim>\<open>null\<close>; on every other
  value it finds the method \<^verbatim>\<open>String(v)\<close> uses, or none where that one finds none.
\<close>

fun toString :: "jsval \<Rightarrow> js_error + string" where
  "toString Undefined = Inl (TypeError ''Cannot read properties of undefined (reading toString)'')"
| "toString Null = Inl (TypeError ''Cannot read properties of null (reading toString)'')"
| "toString v = to_string v"

text \<open>
  \<^verbatim>\<open>v.k1.k2 = x\<close>: the nested object is changed in place, so \<open>v\<close> sees the change where it
  holds that object, in its own property \<open>k1\<close> or in the one it inherits (\<open>replace_prop\<close>).
\<close>

fun replace_prop :: "jsval \<Rightarrow> string \<Rightarrow> jsval \<Rightarrow> jsval" where
  "replace_prop (Object ps None) k y =
     (if map_of ps k \<noteq> None then Object (AList.update k y ps) None else Object ps None)"
| "replace_prop (Object ps (Some p)) k y =
     (if map_of ps k \<noteq> None then Object (AList.update k y ps) (Some p)
      else Object ps (Some (replace_prop p k y)))"
| "replace_prop (Array xs ps) k y =
     (if map_of ps k \<noteq> None then Array xs (AList.update k y ps) else Array xs ps)"
| "replace_prop v k y = v"

definition put_in :: "jsval \<Rightarrow> string \<Rightarrow> string \<Rightarrow> jsval \<Rightarrow> js_error + jsval" where
  "put_in v k1 k2 x =
     andThen (get v k1) (\<lambda>inner. andThen (put inner k2 x) (\<lambda>inner'. Inr (replace_prop v k1 inner')))"

section \<open>Collaborators, store and trace\<close>

text \<open>
  The base class \<^verbatim>\<open>AfipWebService\<close> (the SOAP transport behind \<^verbatim>\<open>super.executeRequest\<close>) and
  the \<^verbatim>\<open>afip\<close> object (\<^verbatim>\<open>GetServiceTA\<close>, \<^verbatim>\<open>CUIT\<close>) are not part of the two classes: they are
  parameters.  Each call to one of them is recorded in the trace, and what it answers may
  depend on the calls made before.  \<open>TA service\<close> is a call
  \<^verbatim>\<open>afip.GetServiceTA(service)\<close>, and \<open>Soap operation params tokenAndSign\<close> a call
  \<^verbatim>\<open>super.executeRequest(operation, params, tokenAndSign)\<close>.
\<close>

datatype event =
    TA string
  | Soap string jsval jsval

record afip =
  CUIT :: jsval
  GetServiceTA :: "event list \<Rightarrow> string \<Rightarrow> js_error + jsval"
  transport :: "event list \<Rightarrow> string \<Rightarrow> jsval \<Rightarrow> jsval \<Rightarrow> js_error + jsval"

text \<open>
  Objects whose identity matters (the caller's \<^verbatim>\<open>data\<close> and the copy \<^verbatim>\<open>createVoucher\<close>
  makes of it) live in a store and are named by their address.  A cell of the store holds
  the own properties of its object and its prototype.  A parameter tree may point into the
  store; the transport is handed the tree as it stands when the call is made.
\<close>

type_synonym cell = "obj \<times> jsval option"

record state =
  heap :: "cell list"
  trace :: "event list"

definition cell_value :: "cell \<Rightarrow> jsval" where
  "cell_value c = Object (fst c) (snd c)"

datatype param =
    Val jsval
  | Ref nat
  | PObj "(string \<times> param) list"

fun snapshot :: "cell list \<Rightarrow> param \<Rightarrow> jsval" where
  "snapshot h (Val v) = v"
| "snapshot h (Ref a) = (if a < length h then cell_value (h ! a) else Undefined)"
| "snapshot h (PObj ps) = Obj (map (\<lambda>(k, p). (k, snapshot h p)) ps)"

text \<open>
  A new object of the store, and \<^verbatim>\<open>data[k]\<close>, \<^verbatim>\<open>data[k] = v\<close> and \<^verbatim>\<open>delete data[k]\<close> for the
  object at address \<open>a\<close>; \<open>cell_get c k\<close> is \<^verbatim>\<open>c[k]\<close> for the object in the cell \<open>c\<close>.
  \<^verbatim>\<open>delete\<close> removes an own property and leaves the prototype's.
\<close>

definition alloc :: "state \<Rightarrow> cell \<Rightarrow> nat \<times> state" where
  "alloc s ob = (length (heap s), s\<lparr>heap := heap s @ [ob]\<rparr>)"

definition cell_get :: "cell \<Rightarrow> string \<Rightarrow> jsval" where
  "cell_get c k = get_prop (cell_value c) k"

definition load :: "state \<Rightarrow> nat \<Rightarrow> string \<Rightarrow> jsval" where
  "load s a k = cell_get (heap s ! a) k"

definition store :: "state \<Rightarrow> nat \<Rightarrow> string \<Rightarrow> jsval \<Rightarrow> state" where
  "store s a k v = s\<lparr>heap := (heap s)[a := set_prop (heap s ! a) k v]\<rparr>"

definition remove_own :: "string \<Rightarrow> cell \<Rightarrow> cell" where
  "remove_own k c = (AList.delete k (fst c), snd c)"

definition delete :: "state \<Rightarrow> nat \<Rightarrow> string \<Rightarrow> state" where
  "delete s a k = s\<lparr>heap := (heap s)[a := remove_own k (heap s ! a)]\<rparr>"

text \<open>The two calls to the collaborators, each adding its event to the trace.\<close>

definition call_GetServiceTA :: "afip \<Rightarrow> state \<Rightarrow> string \<Rightarrow> (js_error + jsval) \<times> state" where
  "call_GetServiceTA w s service =
     (GetServiceTA w (trace s) service, s\<lparr>trace := trace s @ [TA service]\<rparr>)"

definition super_executeRequest ::
  "afip \<Rightarrow> state \<Rightarrow> string \<Rightarrow> (string \<times> param) list \<Rightarrow> jsval \<Rightarrow> (js_error + jsval) \<times> state" where
  "super_executeRequest w s operation params tokenAndSign =
     (let sent = snapshot (heap s) (PObj params)
      in (transport w (trace s) operation sent tokenAndSign,
          s\<lparr>trace := trace s @ [Soap operation sent tokenAndSign]\<rparr>))"

text \<open>\<^verbatim>\<open>let { token, sign } = v\<close>.\<close>

definition destructure_token_sign :: "jsval \<Rightarrow> js_error + jsval \<times> jsval" where
  "destructure_token_sign v =
     (if v = Undefined \<or> v = Null
      then Inl (TypeError ''Cannot destructure property token of the credential as it is undefined or null'')
      else andThen (get v ''token'') (\<lambda>token. andThen (get v ''sign'') (\<lambda>sign. Inr (token, sign))))"

text \<open>\<^verbatim>\<open>Object.assign(params, auth)\<close> on a parameter tree.\<close>

definition assign_params :: "(string \<times> param) list \<Rightarrow> obj \<Rightarrow> (string \<times> param) list" where
  "assign_params params source =
     fold (\<lambda>k t. AList.update k (Val (lookup source k)) t) (map fst source) params"

section \<open>ElectronicBilling\<close>

text \<open>The constructor's options: the service name handed to the base class.\<close>

definition ElectronicBilling_service :: string where
  "ElectronicBilling_service = ''wsfe''"

text \<open>\<^verbatim>\<open>formatDate(date)\<close>.\<close>

definition formatDate :: "jsval \<Rightarrow> js_error + jsval" where
  "formatDate date = andThen (toString date) (\<lambda>s. Inr (Str (replace_date s)))"

text \<open>\<^verbatim>\<open>getWSInitialRequest(operation, tokenAndSign)\<close>.\<close>

definition getWSInitialRequest ::
  "afip \<Rightarrow> state \<Rightarrow> string \<Rightarrow> jsval \<Rightarrow> (js_error + obj) \<times> state" where
  "getWSInitialRequest w s operation tokenAndSign =
     (if operation = ''FEDummy'' then (Inr [], s)
      else
        case (if truthy tokenAndSign then (Inr tokenAndSign, s)
              else call_GetServiceTA w s ''ws_sr_constancia_inscripcion'') of
          (Inl e, s) \<Rightarrow> (Inl e, s)
        | (Inr ta, s) \<Rightarrow>
            (case destructure_token_sign ta of
               Inl e \<Rightarrow> (Inl e, s)
             | Inr (token, sign) \<Rightarrow>
                 (Inr [(''Auth'', Obj [(''Token'', token), (''Sign'', sign), (''Cuit'', CUIT w)])], s)))"

text \<open>
  \<^verbatim>\<open>_checkErrors(operation, results)\<close>.  The source changes \<^verbatim>\<open>results\<close> in place and returns
  nothing; the model returns the changed \<^verbatim>\<open>results\<close>, or the error thrown.
\<close>

definition checkErrors :: "string \<Rightarrow> jsval \<Rightarrow> js_error + jsval" where
  "checkErrors operation results =
     andThen (get results (operation @ ''Result'')) (\<lambda>res.
     andThen
       (if operation = ''FECAESolicitar'' then
          andThen (get res ''FeDetResp'') (\<lambda>feDetResp.
            if truthy feDetResp then
              andThen (get feDetResp ''FECAEDetResponse'') (\<lambda>det.
              andThen (if isArray det
                       then andThen (first det) (\<lambda>d. put_in res ''FeDetResp'' ''FECAEDetResponse'' d)
                       else Inr res) (\<lambda>res.
              andThen (get res ''FeDetResp'') (\<lambda>feDetResp.
              andThen (get feDetResp ''FECAEDetResponse'') (\<lambda>det.
              andThen (get det ''Observaciones'') (\<lambda>observaciones.
                if truthy observaciones then
                  andThen (get det ''Resultado'') (\<lambda>resultado.
                    if resultado \<noteq> Str ''A'' then
                      andThen (get observaciones ''Obs'') (\<lambda>obs.
                        put res ''Errors'' (Obj [(''Err'', obs)]))
                    else Inr res)
                else Inr res)))))
            else Inr res)
        else Inr res) (\<lambda>res.
     andThen (get res ''Errors'') (\<lambda>errors.
       if truthy errors then
         andThen (get errors ''Err'') (\<lambda>errs.
         andThen (if isArray errs then first errs else Inr errs) (\<lambda>err.
         andThen (get err ''Code'') (\<lambda>code.
         andThen (get err ''Msg'') (\<lambda>msg.
         andThen (to_string code) (\<lambda>c.
         andThen (to_string msg) (\<lambda>m.
           Inl (new_Error (''('' @ c @ '') '' @ m) code)))))))
       else put results (operation @ ''Result'') res)))"

text \<open>\<^verbatim>\<open>executeRequest(operation, params = {}, tokenAndSign)\<close>; \<open>None\<close> is \<^verbatim>\<open>undefined\<close>.\<close>

definition executeRequest ::
  "afip \<Rightarrow> state \<Rightarrow> string \<Rightarrow> (string \<times> param) list option \<Rightarrow> jsval
     \<Rightarrow> (js_error + jsval) \<times> state" where
  "executeRequest w s operation params tokenAndSign =
     (let params = (case params of None \<Rightarrow> [] | Some ps \<Rightarrow> ps)
      in case getWSInitialRequest w s operation tokenAndSign of
           (Inl e, s) \<Rightarrow> (Inl e, s)
         | (Inr auth, s) \<Rightarrow>
             (let params = assign_params params auth
              in case super_executeRequest w s operation params tokenAndSign of
                   (Inl e, s) \<Rightarrow> (Inl e, s)
                 | (Inr results, s) \<Rightarrow>
                     (case checkErrors operation results of
                        Inl e \<Rightarrow> (Inl e, s)
                      | Inr results \<Rightarrow> (get results (operation @ ''Result''), s))))"

text \<open>\<^verbatim>\<open>getLastVoucher(salesPoint, type, tokenAndSign)\<close>.\<close>

definition getLastVoucher ::
  "afip \<Rightarrow> state \<Rightarrow> jsval \<Rightarrow> jsval \<Rightarrow> jsval \<Rightarrow> (js_error + jsval) \<times> state" where
  "getLastVoucher w s salesPoint type tokenAndSign =
     (let req = [(''PtoVta'', Val salesPoint), (''CbteTipo'', Val type)]
      in case executeRequest w s ''FECompUltimoAutorizado'' (Some req) tokenAndSign of
           (Inl e, s) \<Rightarrow> (Inl e, s)
         | (Inr r, s) \<Rightarrow> (get r ''CbteNro'', s))"

text \<open>
  The five statements of the shape \<^verbatim>\<open>if (data["Tributos"]) data["Tributos"] = { Tributo: data["Tributos"] };\<close>
  in \<^verbatim>\<open>createVoucher\<close>, for the field and the element name they mention.
\<close>

definition wrap_field :: "state \<Rightarrow> nat \<Rightarrow> string \<Rightarrow> string \<Rightarrow> state" where
  "wrap_field s data plural singular =
     (if truthy (load s data plural)
      then store s data plural (Obj [(singular, load s data plural)]) else s)"

text \<open>
  \<^verbatim>\<open>createVoucher(data, returnResponse = false, tokenAndSign)\<close>.  \<open>data\<close> is the address of
  the caller's object; an address outside the store stands for a \<^verbatim>\<open>data\<close> that is no
  object, on which \<^verbatim>\<open>data.token\<close> throws.  The header count
  \<^verbatim>\<open>data["CbteHasta"] - data["CbteDesde"] + 1\<close> is computed when the request is built, after
  the copy is made: a field that cannot be converted to a number throws there.
\<close>

definition createVoucher ::
  "afip \<Rightarrow> state \<Rightarrow> nat \<Rightarrow> jsval \<Rightarrow> jsval \<Rightarrow> (js_error + jsval) \<times> state" where
  "createVoucher w s data returnResponse tokenAndSign =
     (if \<not> data < length (heap s)
      then (Inl (TypeError ''Cannot read properties of undefined (reading token)''), s)
      else
        let returnResponse = (if returnResponse = Undefined then Bool False else returnResponse);
            tokenAndSign = load s data ''token'';
            (data, s) = alloc s (Object_assign ([], None) (fst (heap s ! data)))
        in case andThen (js_minus (load s data ''CbteHasta'') (load s data ''CbteDesde''))
                  (\<lambda>d. js_plus d (Num 1)) of
             Inl e \<Rightarrow> (Inl e, s)
           | Inr cantReg \<Rightarrow>
               let req = [(''FeCAEReq'', PObj
                            [(''FeCabReq'', PObj
                               [(''CantReg'', Val cantReg),
                                (''PtoVta'', Val (load s data ''PtoVta'')),
                                (''CbteTipo'', Val (load s data ''CbteTipo''))]),
                             (''FeDetReq'', PObj [(''FECAEDetRequest'', Ref data)])])];
                   s = delete s data ''CantReg'';
                   s = delete s data ''PtoVta'';
                   s = delete s data ''CbteTipo'';
                   s = wrap_field s data ''Tributos'' ''Tributo'';
                   s = wrap_field s data ''Iva'' ''AlicIva'';
                   s = wrap_field s data ''CbtesAsoc'' ''CbteAsoc'';
                   s = wrap_field s data ''Compradores'' ''Comprador'';
                   s = wrap_field s data ''Opcionales'' ''Opcional''
               in case executeRequest w s ''FECAESolicitar'' (Some req) tokenAndSign of
                    (Inl e, s) \<Rightarrow> (Inl e, s)
                  | (Inr results, s) \<Rightarrow>
                      if returnResponse = Bool True then (Inr results, s)
                      else
                        (andThen (get results ''FeDetResp'') (\<lambda>feDetResp.
                         andThen (get feDetResp ''FECAEDetResponse'') (\<lambda>det.
                         andThen (if isArray det
                                  then andThen (first det) (\<lambda>d. put_in results ''FeDetResp'' ''FECAEDetResponse'' d)
                                  else Inr results) (\<lambda>results.
                         andThen (get results ''FeDetResp'') (\<lambda>feDetResp.
                         andThen (get feDetResp ''FECAEDetResponse'') (\<lambda>det.
                         andThen (get det ''CAE'') (\<lambda>cae.
                         andThen (get det ''CAEFchVto'') (\<lambda>fchVto.
                         andThen (formatDate fchVto) (\<lambda>formatted.
                           Inr (Obj [(''CAE'', cae), (''CAEFchVto'', formatted)]))))))))), s))"

text \<open>
  \<^verbatim>\<open>createNextVoucher(data, tokenAndSign)\<close>.  It calls \<^verbatim>\<open>getLastVoucher\<close> with two
  arguments and \<^verbatim>\<open>createVoucher(data, tokenAndSign)\<close> with two, so its credential lands in
  the \<^verbatim>\<open>returnResponse\<close> parameter.
\<close>

definition createNextVoucher ::
  "afip \<Rightarrow> state \<Rightarrow> nat \<Rightarrow> jsval \<Rightarrow> (js_error + jsval) \<times> state" where
  "createNextVoucher w s data tokenAndSign =
     (if \<not> data < length (heap s)
      then (Inl (TypeError ''Cannot read properties of undefined (reading PtoVta)''), s)
      else
        case getLastVoucher w s (load s data ''PtoVta'') (load s data ''CbteTipo'') Undefined of
          (Inl e, s) \<Rightarrow> (Inl e, s)
        | (Inr lastVoucher, s) \<Rightarrow>
            (case js_plus lastVoucher (Num 1) of
               Inl e \<Rightarrow> (Inl e, s)
             | Inr voucherNumber \<Rightarrow>
                 (let s = store s data ''CbteDesde'' voucherNumber;
                      s = store s data ''CbteHasta'' voucherNumber
                  in case createVoucher w s data tokenAndSign Undefined of
                       (Inl e, s) \<Rightarrow> (Inl e, s)
                     | (Inr res, s) \<Rightarrow> (put res ''voucherNumber'' voucherNumber, s))))"

text \<open>
  \<^verbatim>\<open>getVoucherInfo(number, salesPoint, type, tokenAndSign)\<close>: the \<^verbatim>\<open>catch\<close> handler turns
  an error whose \<^verbatim>\<open>code\<close> is 602 into the value \<^verbatim>\<open>null\<close>, and the method then reads
  \<^verbatim>\<open>result.ResultGet\<close>.
\<close>

definition getVoucherInfo ::
  "afip \<Rightarrow> state \<Rightarrow> jsval \<Rightarrow> jsval \<Rightarrow> jsval \<Rightarrow> jsval \<Rightarrow> (js_error + jsval) \<times> state" where
  "getVoucherInfo w s number salesPoint type tokenAndSign =
     (let req = [(''FeCompConsReq'', PObj [(''CbteNro'', Val number), (''PtoVta'', Val salesPoint),
                                           (''CbteTipo'', Val type)])]
      in case (case executeRequest w s ''FECompConsultar'' (Some req) tokenAndSign of
                 (Inl err, s) \<Rightarrow> (if err_code err = Num 602 then Inr Null else Inl err, s)
               | (Inr r, s) \<Rightarrow> (Inr r, s)) of
           (Inl e, s) \<Rightarrow> (Inl e, s)
         | (Inr result, s) \<Rightarrow> (get result ''ResultGet'', s))"

text \<open>\<^verbatim>\<open>getServerStatus(tokenAndSign)\<close>.\<close>

definition getServerStatus :: "afip \<Rightarrow> state \<Rightarrow> jsval \<Rightarrow> (js_error + jsval) \<times> state" where
  "getServerStatus w s tokenAndSign = executeRequest w s ''FEDummy'' None tokenAndSign"

text \<open>
  The remaining operations share one shape,
  \<^verbatim>\<open>(await this.executeRequest(op, req, tokenAndSign)).ResultGet\<close>, some followed by one more
  field.
\<close>

definition result_get ::
  "(js_error + jsval) \<times> state \<Rightarrow> string list \<Rightarrow> (js_error + jsval) \<times> state" where
  "result_get r path =
     (case r of (Inl e, s) \<Rightarrow> (Inl e, s)
      | (Inr v, s) \<Rightarrow> (fold (\<lambda>k acc. andThen acc (\<lambda>x. get x k)) path (Inr v), s))"

definition createCAEA :: "afip \<Rightarrow> state \<Rightarrow> jsval \<Rightarrow> jsval \<Rightarrow> jsval \<Rightarrow> (js_error + jsval) \<times> state" where
  "createCAEA w s period fortnight tokenAndSign =
     result_get (executeRequest w s ''FECAEASolicitar''
                   (Some [(''Periodo'', Val period), (''Orden'', Val fortnight)]) tokenAndSign)
                [''ResultGet'']"

definition getCAEA :: "afip \<Rightarrow> state \<Rightarrow> jsval \<Rightarrow> jsval \<Rightarrow> jsval \<Rightarrow> (js_error + jsval) \<times> state" where
  "getCAEA w s period fortnight tokenAndSign =
     result_get (executeRequest w s ''FECAEAConsultar''
                   (Some [(''Periodo'', Val period), (''Orden'', Val fortnight)]) tokenAndSign)
                [''ResultGet'']"

definition getSalesPoints :: "afip \<Rightarrow> state \<Rightarrow> jsval \<Rightarrow> (js_error + jsval) \<times> state" where
  "getSalesPoints w s tokenAndSign =
     result_get (executeRequest w s ''FEParamGetPtosVenta'' None tokenAndSign) [''ResultGet'', ''PtoVenta'']"

definition getVoucherTypes :: "afip \<Rightarrow> state \<Rightarrow> jsval \<Rightarrow> (js_error + jsval) \<times> state" where
  "getVoucherTypes w s tokenAndSign =
     result_get (executeRequest w s ''FEParamGetTiposCbte'' None tokenAndSign) [''ResultGet'', ''CbteTipo'']"

definition getConceptTypes :: "afip \<Rightarrow> state \<Rightarrow> jsval \<Rightarrow> (js_error + jsval) \<times> state" where
  "getConceptTypes w s tokenAndSign =
     result_get (executeRequest w s ''FEParamGetTiposConcepto'' None tokenAndSign) [''ResultGet'', ''ConceptoTipo'']"

definition getDocumentTypes :: "afip \<Rightarrow> state \<Rightarrow> jsval \<Rightarrow> (js_error + jsval) \<times> state" where
  "getDocumentTypes w s tokenAndSign =
     result_get (executeRequest w s ''FEParamGetTiposDoc'' None tokenAndSign) [''ResultGet'', ''DocTipo'']"

definition getAliquotTypes :: "afip \<Rightarrow> state \<Rightarrow> jsval \<Rightarrow> (js_error + jsval) \<times> state" where
  "getAliquotTypes w s tokenAndSign =
     result_get (executeRequest w s ''FEParamGetTiposIva'' None tokenAndSign) [''ResultGet'', ''IvaTipo'']"

definition getCurrenciesTypes :: "afip \<Rightarrow> state \<Rightarrow> jsval \<Rightarrow> (js_error + jsval) \<times> state" where
  "getCurrenciesTypes w s tokenAndSign =
     result_get (executeRequest w s ''FEParamGetTiposMonedas'' None tokenAndSign) [''ResultGet'', ''Moneda'']"

definition getOptionsTypes :: "afip \<Rightarrow> state \<Rightarrow> jsval \<Rightarrow> (js_error + jsval) \<times> state" where
  "getOptionsTypes w s tokenAndSign =
     result_get (executeRequest w s ''FEParamGetTiposOpcional'' None tokenAndSign) [''ResultGet'', ''OpcionalTipo'']"

definition getTaxTypes :: "afip \<Rightarrow> state \<Rightarrow> jsval \<Rightarrow> (js_error + jsval) \<times> state" where
  "getTaxTypes w s tokenAndSign =
     result_get (executeRequest w s ''FEParamGetTiposTributos'' None tokenAndSign) [''ResultGet'', ''TributoTipo'']"

section \<open>RegisterScopeFour\<close>

text \<open>\<^verbatim>\<open>executeRequest(operation, params = {})\<close> of \<^verbatim>\<open>RegisterScopeFour\<close>.\<close>

definition executeRequest_RegisterScopeFour ::
  "afip \<Rightarrow> state \<Rightarrow> string \<Rightarrow> (string \<times> param) list option \<Rightarrow> (js_error + jsval) \<times> state" where
  "executeRequest_RegisterScopeFour w s operation params =
     (let params = (case params of None \<Rightarrow> [] | Some ps \<Rightarrow> ps)
      in case super_executeRequest w s operation params Undefined of
           (Inl e, s) \<Rightarrow> (Inl e, s)
         | (Inr results, s) \<Rightarrow>
             (get results (if operation = ''getPersona'' then ''personaReturn'' else ''return''), s))"

text \<open>
  \<^verbatim>\<open>getTaxpayerDetails(identifier, tokenAndSign)\<close>: \<^verbatim>\<open>.then\<close> reads \<^verbatim>\<open>res.persona\<close>, and
  \<^verbatim>\<open>.catch\<close> sees every error of the request and of that read.
\<close>

definition getTaxpayerDetails ::
  "afip \<Rightarrow> state \<Rightarrow> jsval \<Rightarrow> jsval \<Rightarrow> (js_error + jsval) \<times> state" where
  "getTaxpayerDetails w s identifier tokenAndSign =
     (case (if truthy tokenAndSign then (Inr tokenAndSign, s)
            else call_GetServiceTA w s ''ws_sr_padron_a4'') of
        (Inl e, s) \<Rightarrow> (Inl e, s)
      | (Inr ta, s) \<Rightarrow>
          (case destructure_token_sign ta of
             Inl e \<Rightarrow> (Inl e, s)
           | Inr (token, sign) \<Rightarrow>
               (let params = [(''token'', Val token), (''sign'', Val sign),
                              (''cuitRepresentada'', Val (CUIT w)), (''idPersona'', Val identifier)]
                in case executeRequest_RegisterScopeFour w s ''getPersona'' (Some params) of
                     (r, s) \<Rightarrow>
                       (case andThen r (\<lambda>res. get res ''persona'') of
                          Inl err \<Rightarrow>
                            if indexOf (err_message err) ''No existe'' \<noteq> - 1 then Inr Null
                            else Inl err
                        | Inr persona \<Rightarrow> Inr persona, s))))"

definition getServerStatus_RegisterScopeFour :: "afip \<Rightarrow> state \<Rightarrow> (js_error + jsval) \<times> state" where
  "getServerStatus_RegisterScopeFour w s = executeRequest_RegisterScopeFour w s ''dummy'' None"

section \<open>Terms used to state the properties\<close>

text \<open>
  The definitions of this section are not functions of the source.  They name what the
  properties talk about: the events a call adds to the trace, the detail section of a
  request, the parts \<^verbatim>\<open>createVoucher\<close> is made of, and a mocked \<^verbatim>\<open>afip\<close> object.
\<close>

definition events_since :: "state \<Rightarrow> state \<Rightarrow> event list" where
  "events_since s s' = drop (length (trace s)) (trace s')"

text \<open>\<^verbatim>\<open>req.FeCAEReq.FeDetReq.FECAEDetRequest\<close> of a request handed to the transport.\<close>

definition sent_detail :: "jsval \<Rightarrow> js_error + jsval" where
  "sent_detail req =
     andThen (get req ''FeCAEReq'') (\<lambda>r. andThen (get r ''FeDetReq'') (\<lambda>d. get d ''FECAEDetRequest''))"

text \<open>The fields \<^verbatim>\<open>createVoucher\<close> wraps, each with the element name it wraps it under.\<close>

definition plural_fields :: "(string \<times> string) list" where
  "plural_fields =
     [(''Tributos'', ''Tributo''), (''Iva'', ''AlicIva''), (''CbtesAsoc'', ''CbteAsoc''),
      (''Compradores'', ''Comprador''), (''Opcionales'', ''Opcional'')]"

text \<open>
  The copy \<^verbatim>\<open>createVoucher\<close> makes of the caller's object \<open>d\<close>; what it does to the copy, as
  a function of \<open>d\<close>; the header count \<^verbatim>\<open>CantReg\<close> it computes from the copy; the request it
  builds, for the copy at address \<open>a\<close>; the request as the transport gets it, for the caller's
  object at address \<open>data\<close> of the store \<open>h\<close> and the authentication block \<open>auth\<close>; and what it
  returns in minimal mode.  Lemmas
  \<open>createVoucher_unfold\<close> and \<open>createVoucher_answer\<close> prove that \<open>createVoucher\<close> is made of these.
\<close>

definition copy_of :: "cell \<Rightarrow> cell" where
  "copy_of d = Object_assign ([], None) (fst d)"

definition wrap :: "string \<Rightarrow> string \<Rightarrow> cell \<Rightarrow> cell" where
  "wrap plural singular c =
     (if truthy (cell_get c plural) then set_prop c plural (Obj [(singular, cell_get c plural)])
      else c)"

definition submitted_detail :: "cell \<Rightarrow> cell" where
  "submitted_detail d =
     wrap ''Opcionales'' ''Opcional'' (wrap ''Compradores'' ''Comprador''
       (wrap ''CbtesAsoc'' ''CbteAsoc'' (wrap ''Iva'' ''AlicIva'' (wrap ''Tributos'' ''Tributo''
         (remove_own ''CbteTipo'' (remove_own ''PtoVta'' (remove_own ''CantReg''
           (copy_of d))))))))"

definition header_count :: "cell \<Rightarrow> js_error + jsval" where
  "header_count d =
     andThen (js_minus (cell_get (copy_of d) ''CbteHasta'') (cell_get (copy_of d) ''CbteDesde''))
       (\<lambda>n. js_plus n (Num 1))"

definition voucher_request :: "jsval \<Rightarrow> cell \<Rightarrow> nat \<Rightarrow> (string \<times> param) list" where
  "voucher_request cantReg d a =
     [(''FeCAEReq'', PObj
        [(''FeCabReq'', PObj
           [(''CantReg'', Val cantReg),
            (''PtoVta'', Val (cell_get (copy_of d) ''PtoVta'')),
            (''CbteTipo'', Val (cell_get (copy_of d) ''CbteTipo''))]),
         (''FeDetReq'', PObj [(''FECAEDetRequest'', Ref a)])])]"

definition sent_request :: "cell list \<Rightarrow> nat \<Rightarrow> jsval \<Rightarrow> obj \<Rightarrow> jsval" where
  "sent_request h data cantReg auth =
     snapshot (h @ [submitted_detail (h ! data)])
       (PObj (assign_params (voucher_request cantReg (h ! data) (length h)) auth))"

definition minimal_result :: "jsval \<Rightarrow> js_error + jsval" where
  "minimal_result results =
     andThen (get results ''FeDetResp'') (\<lambda>feDetResp.
     andThen (get feDetResp ''FECAEDetResponse'') (\<lambda>det.
     andThen (if isArray det
              then andThen (first det) (\<lambda>d. put_in results ''FeDetResp'' ''FECAEDetResponse'' d)
              else Inr results) (\<lambda>results.
     andThen (get results ''FeDetResp'') (\<lambda>feDetResp.
     andThen (get feDetResp ''FECAEDetResponse'') (\<lambda>det.
     andThen (get det ''CAE'') (\<lambda>cae.
     andThen (get det ''CAEFchVto'') (\<lambda>fchVto.
     andThen (formatDate fchVto) (\<lambda>formatted.
       Inr (Obj [(''CAE'', cae), (''CAEFchVto'', formatted)])))))))))"

text \<open>
  A mocked \<^verbatim>\<open>afip\<close>: the delegate hands out \<open>ta\<close> for every service, and the transport
  answers each operation as the table says.
\<close>

definition mock_afip :: "jsval \<Rightarrow> (string \<times> (js_error + jsval)) list \<Rightarrow> afip" where
  "mock_afip ta answers =
     \<lparr> CUIT = Num 20111111112,
       GetServiceTA = (\<lambda>history service. Inr ta),
       transport = (\<lambda>history operation params tokenAndSign.
                      case map_of answers operation of
                        Some a \<Rightarrow> a
                      | None \<Rightarrow> Inl (new_Error ''no mocked answer'' Undefined)) \<rparr>"

text \<open>
  A \<^verbatim>\<open>FECAESolicitar\<close> response whose detail section is \<open>det\<close>; \<open>env\<close>, \<open>res\<close> and \<open>fdr\<close>
  hold the other fields of the three objects around it.  \<open>mocked w answer\<close> is \<open>w\<close> with a
  transport that gives \<open>answer\<close> to every request.
\<close>

definition FECAESolicitar_response :: "obj \<Rightarrow> obj \<Rightarrow> obj \<Rightarrow> jsval \<Rightarrow> jsval" where
  "FECAESolicitar_response env res fdr det =
     Obj (AList.update ''FECAESolicitarResult''
            (Obj (AList.update ''FeDetResp'' (Obj (AList.update ''FECAEDetResponse'' det fdr)) res)) env)"

definition mocked :: "afip \<Rightarrow> js_error + jsval \<Rightarrow> afip" where
  "mocked w answer = w\<lparr>transport := (\<lambda>history operation params tokenAndSign. answer)\<rparr>"

text \<open>
  The \<^verbatim>\<open>throw\<close> statement of \<^verbatim>\<open>_checkErrors\<close> for the error list \<open>errs\<close>, and the errors
  that carry no \<^verbatim>\<open>code\<close>.
\<close>

definition thrown_for :: "jsval \<Rightarrow> js_error + jsval" where
  "thrown_for errs =
     andThen (if isArray errs then first errs else Inr errs) (\<lambda>err.
     andThen (get err ''Code'') (\<lambda>code.
     andThen (get err ''Msg'') (\<lambda>msg.
     andThen (to_string code) (\<lambda>c.
     andThen (to_string msg) (\<lambda>m.
       Inl (new_Error (''('' @ c @ '') '' @ m) code))))))"

definition no_code :: "js_error + 'a \<Rightarrow> bool" where
  "no_code m = (case m of Inl e \<Rightarrow> err_code e = Undefined | Inr x \<Rightarrow> True)"

text \<open>
  The run the witnesses use: the last authorised voucher is number 10, the caller's object
  asks for voucher 1 and has two tax entries, and the taxpayer looked up does not exist.
\<close>

definition approved_detail :: obj where
  "approved_detail =
     [(''CAE'', Str ''70417054367476''), (''CAEFchVto'', Str ''20230415''), (''Resultado'', Str ''A'')]"

definition example_afip :: afip where
  "example_afip =
     mock_afip (Obj [(''token'', Str ''DT''), (''sign'', Str ''DS'')])
       [(''FECompUltimoAutorizado'',
           Inr (Obj [(''FECompUltimoAutorizadoResult'', Obj [(''CbteNro'', Num 10)])])),
        (''FECAESolicitar'', Inr (FECAESolicitar_response [] [] [] (Obj approved_detail))),
        (''getPersona'',
           Inl \<lparr>err_name = ''Error'', err_message = ''No existe persona con ese Id'',
                err_code = Undefined, err_cause = Undefined\<rparr>)]"

definition example_state :: state where
  "example_state =
     \<lparr>heap = [([(''PtoVta'', Num 1), (''CbteTipo'', Num 6), (''CbteDesde'', Num 1), (''CbteHasta'', Num 1),
                (''Tributos'', Arr [Obj [(''Id'', Num 99), (''Importe'', Num 10)],
                                    Obj [(''Id'', Num 2), (''Importe'', Num 5)]])], None)],
      trace = []\<rparr>"

section \<open>Facts about property lists, the store and the trace\<close>

lemma lookup_Nil [simp]: "lookup [] k = Undefined"
  by (simp add: lookup_def)

lemma lookup_Cons [simp]: "lookup ((k', v) # ps) k = (if k' = k then v else lookup ps k)"
  by (simp add: lookup_def)

lemma lookup_update [simp]:
  "lookup (AList.update k v ps) k' = (if k' = k then v else lookup ps k')"
  by (auto simp add: lookup_def update_conv')

lemma lookup_delete [simp]:
  "lookup (AList.delete k ps) k' = (if k' = k then Undefined else lookup ps k')"
  by (auto simp add: lookup_def delete_conv')

lemma map_of_fold_update:
  "map_of (fold (\<lambda>k t. AList.update k (f k) t) ks tgt) k =
     (if k \<in> set ks then Some (f k) else map_of tgt k)"
  by (induction ks arbitrary: tgt) (auto simp: update_conv')

lemma lookup_absent: "k \<notin> fst ` set ps \<Longrightarrow> lookup ps k = Undefined"
  by (simp add: lookup_def map_of_eq_None_iff [THEN iffD2])

text \<open>No key \<^verbatim>\<open>operation + "Result"\<close> is \<^verbatim>\<open>__proto__\<close>: the last characters differ.\<close>

lemma Result_not_proto [simp]: "operation @ ''Result'' \<noteq> ''__proto__''"
proof
  assume "operation @ ''Result'' = ''__proto__''"
  then have "last (operation @ ''Result'') = last ''__proto__''"
    by (rule arg_cong)
  then show False by simp
qed

lemma map_of_update_same [simp]: "map_of (AList.update k v ps) k = Some v"
  by (simp add: update_conv')

lemma replace_prop_own [simp]:
  "map_of ps k = Some x \<Longrightarrow> replace_prop (Object ps proto) k y = Object (AList.update k y ps) proto"
  by (cases proto) simp_all

lemma set_prop_other [simp]:
  "k \<noteq> ''__proto__'' \<Longrightarrow> set_prop (ps, proto) k x = (AList.update k x ps, proto)"
  by (simp add: set_prop_def)

lemma set_prop_cell: "k \<noteq> ''__proto__'' \<Longrightarrow> set_prop c k x = (AList.update k x (fst c), snd c)"
  by (cases c) simp

lemma put_Object:
  "k \<noteq> ''__proto__'' \<Longrightarrow> put (Object ps proto) k x = Inr (Object (AList.update k x ps) proto)"
  by simp

lemma get_prop_own: "map_of ps k = Some v \<Longrightarrow> get_prop (Object ps proto) k = v"
  by (cases proto) (simp_all add: lookup_def)

lemma get_prop_cong:
  "map_of ps k = map_of ps' k \<Longrightarrow> get_prop (Object ps proto) k = get_prop (Object ps' proto) k"
  by (cases proto) (simp_all add: lookup_def)

lemma cell_get_own: "map_of (fst c) k = Some v \<Longrightarrow> cell_get c k = v"
  by (simp add: cell_get_def cell_value_def get_prop_own)

lemma cell_get_cong:
  "map_of (fst c) k = map_of (fst c') k \<Longrightarrow> snd c = snd c' \<Longrightarrow> cell_get c k = cell_get c' k"
  using get_prop_cong [of "fst c" k "fst c'" "snd c"] by (simp add: cell_get_def cell_value_def)

lemma cell_get_plain [simp]: "cell_get (ps, None) k = lookup ps k"
  by (simp add: cell_get_def cell_value_def)

text \<open>
  \<^verbatim>\<open>Object.assign\<close>: the own properties of the target after the call, for every key but
  \<^verbatim>\<open>__proto__\<close>; and the whole target when the source has no own key \<^verbatim>\<open>__proto__\<close>.
\<close>

lemma map_of_fst_set_prop:
  "k' \<noteq> ''__proto__'' \<Longrightarrow>
   map_of (fst (set_prop c k x)) k' = (if k' = k then Some x else map_of (fst c) k')"
  by (cases c) (auto simp: set_prop_def update_conv')

lemma map_of_fst_fold_set_prop:
  "k \<noteq> ''__proto__'' \<Longrightarrow>
   map_of (fst (fold (\<lambda>k t. set_prop t k (f k)) ks c)) k =
     (if k \<in> set ks then Some (f k) else map_of (fst c) k)"
proof (induction ks arbitrary: c)
  case Nil
  show ?case by simp
next
  case (Cons a ks)
  note sp = map_of_fst_set_prop [OF Cons.prems]
  have "map_of (fst (fold (\<lambda>k t. set_prop t k (f k)) (a # ks) c)) k =
        map_of (fst (fold (\<lambda>k t. set_prop t k (f k)) ks (set_prop c a (f a)))) k"
    by simp
  also have "\<dots> = (if k \<in> set ks then Some (f k) else map_of (fst (set_prop c a (f a))) k)"
    by (rule Cons.IH [OF Cons.prems])
  also have "\<dots> = (if k \<in> set (a # ks) then Some (f k) else map_of (fst c) k)"
    unfolding sp by auto
  finally show ?case .
qed

lemma fold_set_prop_plain:
  "''__proto__'' \<notin> set ks \<Longrightarrow>
   fold (\<lambda>k t. set_prop t k (f k)) ks (ps, proto) =
     (fold (\<lambda>k t. AList.update k (f k) t) ks ps, proto)"
  by (induction ks arbitrary: ps) auto

lemma map_of_fst_copy_of:
  assumes "k \<noteq> ''__proto__''"
  shows "map_of (fst (copy_of d)) k = map_of (fst d) k"
proof (cases "k \<in> fst ` set (fst d)")
  case True
  then obtain v where "map_of (fst d) k = Some v"
    by (metis map_of_eq_None_iff not_None_eq)
  with True assms show ?thesis
    by (simp add: copy_of_def Object_assign_def map_of_fst_fold_set_prop lookup_def)
next
  case False
  with assms show ?thesis
    by (simp add: copy_of_def Object_assign_def map_of_fst_fold_set_prop
          map_of_eq_None_iff [THEN iffD2])
qed

lemma copy_of_plain:
  assumes "map_of (fst d) ''__proto__'' = None"
  shows "snd (copy_of d) = None" and "cell_get (copy_of d) k = lookup (fst d) k"
proof -
  from assms have n: "''__proto__'' \<notin> set (map fst (fst d))"
    by (simp add: map_of_eq_None_iff)
  have c: "copy_of d =
      (fold (\<lambda>k t. AList.update k (lookup (fst d) k) t) (map fst (fst d)) [], None)"
    unfolding copy_of_def Object_assign_def by (rule fold_set_prop_plain [OF n])
  show "snd (copy_of d) = None"
    by (simp add: c)
  have m: "map_of (fst (copy_of d)) k = map_of (fst d) k"
  proof (cases "k = ''__proto__''")
    case True
    have "map_of (fold (\<lambda>k t. AList.update k (lookup (fst d) k) t) (map fst (fst d)) []) ''__proto__'' = None"
      using n by (simp add: map_of_fold_update)
    with True assms show ?thesis by (simp add: c)
  next
    case False
    then show ?thesis by (rule map_of_fst_copy_of)
  qed
  show "cell_get (copy_of d) k = lookup (fst d) k"
    using m by (simp add: c lookup_def)
qed

text \<open>Conversions of primitives do not throw.\<close>

lemma to_string_prim [simp]: "\<not> is_object v \<Longrightarrow> to_string v = Inr (prim_string v)"
  by (simp add: to_string.simps)

lemma to_number_prim [simp]: "\<not> is_object v \<Longrightarrow> to_number v = Inr (prim_number v)"
  by (simp add: to_number_def)

lemma to_primitive_prim [simp]: "\<not> is_object v \<Longrightarrow> to_primitive v = Inr v"
  by (simp add: to_primitive_def)

lemma load_last: "load (s\<lparr>heap := h @ [c]\<rparr>) (length h) k = cell_get c k"
  by (simp add: load_def)

lemma delete_last:
  "delete (s\<lparr>heap := h @ [c]\<rparr>) (length h) k = s\<lparr>heap := h @ [remove_own k c]\<rparr>"
  by (simp add: delete_def)

lemma wrap_field_last:
  "wrap_field (s\<lparr>heap := h @ [c]\<rparr>) (length h) plural singular = s\<lparr>heap := h @ [wrap plural singular c]\<rparr>"
  by (simp add: wrap_field_def wrap_def load_def store_def)

lemma createVoucher_unfold:
  assumes "data < length (heap s)"
  shows "createVoucher w s data returnResponse tokenAndSign =
     (case header_count (heap s ! data) of
        Inl e \<Rightarrow> (Inl e, s\<lparr>heap := heap s @ [copy_of (heap s ! data)]\<rparr>)
      | Inr cantReg \<Rightarrow>
          (case executeRequest w (s\<lparr>heap := heap s @ [submitted_detail (heap s ! data)]\<rparr>)
                  ''FECAESolicitar''
                  (Some (voucher_request cantReg (heap s ! data) (length (heap s))))
                  (load s data ''token'') of
             (Inl e, s') \<Rightarrow> (Inl e, s')
           | (Inr results, s') \<Rightarrow>
               (if returnResponse = Bool True then Inr results else minimal_result results, s')))"
proof (cases "header_count (heap s ! data)")
  case (Inl e)
  with assms show ?thesis
    unfolding createVoucher_def alloc_def
    by (simp add: Let_def load_last header_count_def copy_of_def)
next
  case (Inr cantReg)
  with assms show ?thesis
    unfolding createVoucher_def alloc_def
    by (cases "executeRequest w (s\<lparr>heap := heap s @ [submitted_detail (heap s ! data)]\<rparr>)
             ''FECAESolicitar'' (Some (voucher_request cantReg (heap s ! data) (length (heap s))))
             (load s data ''token'')")
       (auto simp add: Let_def load_last delete_last wrap_field_last submitted_detail_def
          voucher_request_def minimal_result_def header_count_def copy_of_def split: sum.splits)
qed

lemma getWSInitialRequest_heap: "heap (snd (getWSInitialRequest w s op ts)) = heap s"
  by (auto simp: getWSInitialRequest_def call_GetServiceTA_def split: prod.splits sum.splits)

lemma executeRequest_heap: "heap (snd (executeRequest w s op params ts)) = heap s"
  unfolding executeRequest_def Let_def super_executeRequest_def
  using getWSInitialRequest_heap [of w s op ts]
  by (auto split: prod.splits sum.splits)

lemma createVoucher_heap:
  "heap (snd (createVoucher w s data returnResponse tokenAndSign)) =
     (if data < length (heap s)
      then heap s @ [case header_count (heap s ! data) of
                       Inl e \<Rightarrow> copy_of (heap s ! data)
                     | Inr cantReg \<Rightarrow> submitted_detail (heap s ! data)]
      else heap s)"
proof (cases "data < length (heap s)")
  case True
  show ?thesis
  proof (cases "header_count (heap s ! data)")
    case (Inl e)
    with True show ?thesis by (simp add: createVoucher_unfold)
  next
    case (Inr cantReg)
    let ?s1 = "s\<lparr>heap := heap s @ [submitted_detail (heap s ! data)]\<rparr>"
    let ?x = "executeRequest w ?s1 ''FECAESolicitar''
                (Some (voucher_request cantReg (heap s ! data) (length (heap s)))) (load s data ''token'')"
    have "heap (snd ?x) = heap ?s1" by (rule executeRequest_heap)
    with True Inr show ?thesis
      by (cases ?x) (auto simp: createVoucher_unfold split: sum.splits)
  qed
next
  case False
  then show ?thesis by (simp add: createVoucher_def)
qed

lemmas model_defs =
  mock_afip_def new_Error_def TypeError_def andThen_def put_in_def
  call_GetServiceTA_def super_executeRequest_def destructure_token_sign_def assign_params_def
  getWSInitialRequest_def checkErrors_def executeRequest_def getLastVoucher_def
  getVoucherInfo_def getServerStatus_def formatDate_def
  executeRequest_RegisterScopeFour_def getTaxpayerDetails_def
  show_int_def show_nat.simps is_digit_def Let_def

lemma getWSInitialRequest_auth:
  assumes "getWSInitialRequest w s op ts = (Inr auth, s1)" and "op \<noteq> ''FEDummy''"
  shows "\<exists>tok sg. auth = [(''Auth'', Obj [(''Token'', tok), (''Sign'', sg), (''Cuit'', CUIT w)])]"
  using assms
  by (auto simp: getWSInitialRequest_def split: prod.splits sum.splits if_splits)

lemma getWSInitialRequest_trace:
  assumes "getWSInitialRequest w s op ts = (r, s1)"
  shows "trace s1 = trace s @ (if op = ''FEDummy'' \<or> truthy ts then [] else [TA ''ws_sr_constancia_inscripcion''])"
  using assms
  by (auto simp: getWSInitialRequest_def call_GetServiceTA_def split: prod.splits sum.splits if_splits)

lemma executeRequest_trace:
  assumes "executeRequest w s op params ts = (r, s')"
    and "getWSInitialRequest w s op ts = (r1, s1)"
  shows "trace s' = trace s1 @
           (case r1 of Inl e \<Rightarrow> []
            | Inr auth \<Rightarrow> [Soap op (snapshot (heap s)
                 (PObj (assign_params (case params of None \<Rightarrow> [] | Some ps \<Rightarrow> ps) auth))) ts])"
proof -
  have h1: "heap s1 = heap s"
    using getWSInitialRequest_heap [of w s op ts] assms(2) by simp
  show ?thesis
    using assms h1
    by (cases r1)
       (auto simp: executeRequest_def super_executeRequest_def Let_def split: sum.splits)
qed

lemma executeRequest_sent:
  assumes "executeRequest w s op (Some ps) ts = (r, s')"
    and "Soap op2 req c \<in> set (events_since s s')"
    and "op \<noteq> ''FEDummy''"
  shows "op2 = op \<and> c = ts \<and>
         (\<exists>tok sg. req = snapshot (heap s)
            (PObj (AList.update ''Auth'' (Val (Obj [(''Token'', tok), (''Sign'', sg), (''Cuit'', CUIT w)])) ps)))"
proof -
  obtain r1 s1 where g: "getWSInitialRequest w s op ts = (r1, s1)"
    by (cases "getWSInitialRequest w s op ts")
  note t1 = getWSInitialRequest_trace [OF g]
  note t2 = executeRequest_trace [OF assms(1) g]
  show ?thesis
  proof (cases r1)
    case (Inl e)
    with assms(2) t1 t2 show ?thesis
      by (auto simp: events_since_def split: if_splits)
  next
    case (Inr auth)
    with g assms(3) obtain tok sg where
      a: "auth = [(''Auth'', Obj [(''Token'', tok), (''Sign'', sg), (''Cuit'', CUIT w)])]"
      using getWSInitialRequest_auth by blast
    have "Soap op2 req c = Soap op (snapshot (heap s) (PObj (assign_params ps auth))) ts"
      using assms(2) t1 t2 Inr by (auto simp: events_since_def split: if_splits)
    then show ?thesis
      unfolding a assign_params_def by auto
  qed
qed

lemma createVoucher_sent:
  assumes "data < length (heap s)"
    and "createVoucher w s data returnResponse tokenAndSign = (r, s')"
    and "Soap op2 req c \<in> set (events_since s s')"
  shows "op2 = ''FECAESolicitar'' \<and> c = load s data ''token'' \<and>
         sent_detail req = Inr (cell_value (submitted_detail (heap s ! data)))"
proof (cases "header_count (heap s ! data)")
  case (Inl e)
  with assms(1,2) have "trace s' = trace s"
    by (auto simp: createVoucher_unfold)
  with assms(3) show ?thesis
    by (simp add: events_since_def)
next
  case (Inr cantReg)
  let ?s1 = "s\<lparr>heap := heap s @ [submitted_detail (heap s ! data)]\<rparr>"
  let ?ps = "voucher_request cantReg (heap s ! data) (length (heap s))"
  obtain r0 s0 where x: "executeRequest w ?s1 ''FECAESolicitar'' (Some ?ps) (load s data ''token'') = (r0, s0)"
    by (cases "executeRequest w ?s1 ''FECAESolicitar'' (Some ?ps) (load s data ''token'')")
  have s': "s' = s0"
    using assms(1,2) x Inr by (auto simp: createVoucher_unfold split: sum.splits)
  have ev: "events_since ?s1 s0 = events_since s s'"
    by (simp add: events_since_def s')
  from executeRequest_sent [OF x] assms(3) ev
  have "op2 = ''FECAESolicitar'' \<and> c = load s data ''token'' \<and>
         (\<exists>tok sg. req = snapshot (heap ?s1)
            (PObj (AList.update ''Auth'' (Val (Obj [(''Token'', tok), (''Sign'', sg), (''Cuit'', CUIT w)])) ?ps)))"
    by simp
  then show ?thesis
    by (auto simp: voucher_request_def sent_detail_def andThen_def)
qed

text \<open>The copy after the deletions and the wrapping, field by field.\<close>

lemma map_of_delete [simp]:
  "map_of (AList.delete k ps) k' = (if k' = k then None else map_of ps k')"
  by (auto simp add: delete_conv')

lemma snd_remove_own [simp]: "snd (remove_own k c) = snd c"
  by (simp add: remove_own_def)

lemma map_of_remove_own [simp]:
  "map_of (fst (remove_own k c)) k' = (if k' = k then None else map_of (fst c) k')"
  by (simp add: remove_own_def)

lemma cell_get_remove_own_other: "k' \<noteq> k \<Longrightarrow> cell_get (remove_own k c) k' = cell_get c k'"
  by (rule cell_get_cong) simp_all

lemma snd_wrap [simp]: "plural \<noteq> ''__proto__'' \<Longrightarrow> snd (wrap plural singular c) = snd c"
  by (simp add: wrap_def set_prop_cell)

lemma map_of_wrap_same:
  "plural \<noteq> ''__proto__'' \<Longrightarrow>
   map_of (fst (wrap plural singular c)) plural =
     (if truthy (cell_get c plural) then Some (Obj [(singular, cell_get c plural)])
      else map_of (fst c) plural)"
  by (simp add: wrap_def set_prop_cell update_conv')

lemma map_of_wrap_other:
  "plural \<noteq> ''__proto__'' \<Longrightarrow> k \<noteq> plural \<Longrightarrow>
   map_of (fst (wrap plural singular c)) k = map_of (fst c) k"
  by (simp add: wrap_def set_prop_cell update_conv')

lemma cell_get_wrap_other:
  "plural \<noteq> ''__proto__'' \<Longrightarrow> k \<noteq> plural \<Longrightarrow> cell_get (wrap plural singular c) k = cell_get c k"
  by (rule cell_get_cong) (simp_all add: map_of_wrap_other)

lemma snd_submitted_detail: "snd (submitted_detail d) = snd (copy_of d)"
  by (simp add: submitted_detail_def)

lemma map_of_submitted_detail:
  assumes "(plural, singular) \<in> set plural_fields"
  shows "map_of (fst (submitted_detail d)) plural =
           (if truthy (cell_get (copy_of d) plural)
            then Some (Obj [(singular, cell_get (copy_of d) plural)])
            else map_of (fst d) plural)"
proof -
  from assms have
    "(plural = ''Tributos'' \<and> singular = ''Tributo'') \<or>
     (plural = ''Iva'' \<and> singular = ''AlicIva'') \<or>
     (plural = ''CbtesAsoc'' \<and> singular = ''CbteAsoc'') \<or>
     (plural = ''Compradores'' \<and> singular = ''Comprador'') \<or>
     (plural = ''Opcionales'' \<and> singular = ''Opcional'')"
    by (simp add: plural_fields_def)
  then show ?thesis
    by (elim disjE conjE)
       (simp_all add: submitted_detail_def map_of_wrap_same map_of_wrap_other
          cell_get_wrap_other cell_get_remove_own_other map_of_fst_copy_of)
qed

lemma map_of_submitted_detail_other:
  assumes "k \<notin> {''CantReg'', ''PtoVta'', ''CbteTipo'', ''Tributos'', ''Iva'', ''CbtesAsoc'',
                ''Compradores'', ''Opcionales'', ''__proto__''}"
  shows "map_of (fst (submitted_detail d)) k = map_of (fst d) k"
  using assms by (simp add: submitted_detail_def map_of_wrap_other map_of_fst_copy_of)

lemma andThen_Inr [simp]: "andThen (Inr x) f = f x"
  by (simp add: andThen_def)

lemma andThen_Inl [simp]: "andThen (Inl e) f = Inl e"
  by (simp add: andThen_def)

lemma andThen_assoc: "andThen (andThen m f) g = andThen m (\<lambda>x. andThen (f x) g)"
  by (cases m) simp_all

lemma case_andThen:
  "(case (m, s) of (Inl e, s) \<Rightarrow> (Inl e, s) | (Inr x, s) \<Rightarrow> (f x, s)) = (andThen m f, s)"
  by (cases m) simp_all

lemma get_truthy: "truthy v \<Longrightarrow> \<exists>x. get v k = Inr x"
  by (cases v) auto

text \<open>A property that has been written is read back, on an object and on an array.\<close>

lemma put_then_get:
  assumes "put x k v = Inr y" and "k \<noteq> ''__proto__''"
  shows "get y k = Inr v"
proof (cases x)
  case (Object ps proto)
  with assms have "y = Object (AList.update k v ps) proto"
    by simp
  moreover have "map_of (AList.update k v ps) k = Some v"
    by (simp add: update_conv')
  ultimately show ?thesis
    by (simp add: get_prop_own)
qed (use assms in auto)

text \<open>
  Doubles: an integer below \<open>2 ^ 53\<close> in magnitude is its own double, \<open>2 ^ 53\<close> is one too, and
  \<open>2 ^ 53 + 1\<close> is not: the tie goes to the even neighbour \<open>2 ^ 53\<close>.
\<close>

lemma to_double_small:
  assumes "\<bar>x\<bar> < 9007199254740992"
  shows "to_double x = Num x"
proof -
  from assms have m: "nat \<bar>x\<bar> < 9007199254740992"
    by linarith
  show ?thesis
    unfolding to_double_def Let_def by (simp only: m if_True)
qed

lemma bits_double: "0 < n \<Longrightarrow> bits (2 * n) = Suc (bits n)"
  by (subst bits.simps) simp

lemma bits_double_Suc: "bits (Suc (2 * n)) = Suc (bits n)"
  by (subst bits.simps) simp

lemma bits_power: "bits (2 ^ k) = Suc k"
proof (induction k)
  case 0
  show ?case by (simp add: bits.simps [of "Suc 0"] bits.simps [of 0])
next
  case (Suc k)
  have "bits (2 * 2 ^ k) = Suc (bits (2 ^ k))"
    by (rule bits_double) simp
  with Suc show ?case by simp
qed

lemma bits_power_Suc: "0 < k \<Longrightarrow> bits (Suc (2 ^ k)) = Suc k"
proof (induction k)
  case 0
  then show ?case by simp
next
  case (Suc k)
  show ?case
  proof (cases "k = 0")
    case True
    then show ?thesis
      by (simp add: bits.simps [of 3] bits.simps [of 1] bits.simps [of "Suc 0"] bits.simps [of 0])
  next
    case False
    have "bits (Suc (2 * 2 ^ k)) = Suc (bits (2 ^ k))"
      by (rule bits_double_Suc)
    then show ?thesis by (simp add: bits_power)
  qed
qed

lemma to_double_2_53: "to_double 9007199254740992 = Num 9007199254740992"
proof -
  have b: "bits 9007199254740992 = 54"
    using bits_power [of 53] by simp
  show ?thesis
    unfolding to_double_def Let_def by (simp add: b)
qed

lemma to_double_2_53_plus_1: "to_double 9007199254740993 = Num 9007199254740992"
proof -
  have b: "bits 9007199254740993 = 54"
    using bits_power_Suc [of 53] by simp
  show ?thesis
    unfolding to_double_def Let_def by (simp add: b)
qed

lemma js_plus_Num: "js_plus (Num a) (Num b) = Inr (to_double (a + b))"
  by (simp add: js_plus_def)

lemma js_minus_Num: "js_minus (Num a) (Num b) = Inr (to_double (a - b))"
  by (simp add: js_minus_def)

lemma js_plus_one:
  assumes "- 9007199254740992 \<le> n" and "n < 9007199254740992"
  shows "js_plus (Num n) (Num 1) = Inr (Num (n + 1))"
proof (cases "n + 1 = 9007199254740992")
  case True
  then show ?thesis
    by (simp add: js_plus_Num to_double_2_53)
next
  case False
  with assms have "\<bar>n + 1\<bar> < 9007199254740992"
    by simp
  then show ?thesis
    by (simp add: js_plus_Num to_double_small)
qed

lemma new_Error_code [simp]: "err_code (new_Error msg options) = Undefined"
  by (simp add: new_Error_def)

lemma new_Error_message [simp]: "err_message (new_Error msg options) = msg"
  by (simp add: new_Error_def)


lemmas eval_defs =
  model_defs createNextVoucher_def createVoucher_unfold submitted_detail_def wrap_def
  voucher_request_def minimal_result_def load_def store_def copy_of_def Object_assign_def
  remove_own_def cell_value_def cell_get_def set_prop_def header_count_def
  js_plus_def js_minus_def to_double_small

lemmas example_defs = approved_detail_def example_afip_def example_state_def
  FECAESolicitar_response_def mocked_def

section \<open>Requests, responses and errors of the invoicing client\<close>

subsection \<open>What a call sends\<close>

lemma getWSInitialRequest_mocked [simp]:
  "getWSInitialRequest (mocked w a) s op ts = getWSInitialRequest w s op ts"
  by (auto simp: getWSInitialRequest_def mocked_def call_GetServiceTA_def
      split: prod.splits sum.splits)

lemma transport_mocked [simp]: "transport (mocked w a) h op p t = a"
  by (simp add: mocked_def)

lemma getWSInitialRequest_FEDummy: "getWSInitialRequest w s ''FEDummy'' ts = (Inr [], s)"
  by (simp add: getWSInitialRequest_def)

lemma getWSInitialRequest_delegate:
  assumes "op \<noteq> ''FEDummy''" and "\<not> truthy ts"
    and "GetServiceTA w (trace s) ''ws_sr_constancia_inscripcion'' = Inr (Obj ta)"
  shows "fst (getWSInitialRequest w s op ts) =
           Inr [(''Auth'', Obj [(''Token'', lookup ta ''token''), (''Sign'', lookup ta ''sign''),
                               (''Cuit'', CUIT w)])]"
  using assms
  by (simp add: getWSInitialRequest_def call_GetServiceTA_def destructure_token_sign_def)

lemma getWSInitialRequest_fst_heap:
  "fst (getWSInitialRequest w (s\<lparr>heap := h\<rparr>) op ts) = fst (getWSInitialRequest w s op ts)"
  by (auto simp: getWSInitialRequest_def call_GetServiceTA_def split: prod.splits sum.splits)

lemma executeRequest_events:
  assumes g: "getWSInitialRequest w s op ts = (r1, s1)"
  shows "events_since s (snd (executeRequest w s op params ts)) =
           (if op = ''FEDummy'' \<or> truthy ts then [] else [TA ''ws_sr_constancia_inscripcion'']) @
           (case r1 of Inl e \<Rightarrow> []
            | Inr auth \<Rightarrow> [Soap op (snapshot (heap s)
                 (PObj (assign_params (case params of None \<Rightarrow> [] | Some ps \<Rightarrow> ps) auth))) ts])"
proof -
  obtain r s' where x: "executeRequest w s op params ts = (r, s')"
    by (cases "executeRequest w s op params ts")
  from executeRequest_trace [OF x g] getWSInitialRequest_trace [OF g] x
  show ?thesis by (simp add: events_since_def)
qed

lemma executeRequest_mocked:
  "executeRequest (mocked w a) s op params ts =
     (case getWSInitialRequest w s op ts of
        (Inl e, s1) \<Rightarrow> (Inl e, s1)
      | (Inr auth, s1) \<Rightarrow>
          (andThen a (\<lambda>R. andThen (checkErrors op R) (\<lambda>R'. get R' (op @ ''Result''))),
           s1\<lparr>trace := trace s1 @ [Soap op (snapshot (heap s1)
              (PObj (assign_params (case params of None \<Rightarrow> [] | Some ps \<Rightarrow> ps) auth))) ts]\<rparr>))"
proof -
  obtain r1 s1 where g: "getWSInitialRequest w s op ts = (r1, s1)"
    by (cases "getWSInitialRequest w s op ts")
  show ?thesis
  proof (cases r1)
    case (Inl e)
    with g show ?thesis by (simp add: executeRequest_def)
  next
    case (Inr auth)
    with g show ?thesis
      by (cases a)
         (simp_all add: executeRequest_def super_executeRequest_def Let_def andThen_def
            split: sum.splits)
  qed
qed

lemma executeRequest_mocked_cong:
  assumes "checkErrors op R1 = checkErrors op R2"
  shows "executeRequest (mocked w (Inr R1)) s op params ts =
         executeRequest (mocked w (Inr R2)) s op params ts"
  by (cases "getWSInitialRequest w s op ts") (auto simp: executeRequest_mocked assms split: sum.splits)

lemma getLastVoucher_heap: "heap (snd (getLastVoucher w s salesPoint type ts)) = heap s"
proof -
  let ?x = "executeRequest w s ''FECompUltimoAutorizado''
              (Some [(''PtoVta'', Val salesPoint), (''CbteTipo'', Val type)]) ts"
  have "heap (snd ?x) = heap s" by (rule executeRequest_heap)
  then show ?thesis
    by (cases ?x) (auto simp: getLastVoucher_def Let_def split: sum.splits)
qed

lemma createVoucher_mocked:
  assumes "data < length (heap s)"
  shows "fst (createVoucher (mocked w a) s data returnResponse tokenAndSign) =
     (case header_count (heap s ! data) of
        Inl e \<Rightarrow> Inl e
      | Inr cantReg \<Rightarrow>
          (case fst (getWSInitialRequest w s ''FECAESolicitar'' (load s data ''token'')) of
             Inl e \<Rightarrow> Inl e
           | Inr auth \<Rightarrow>
               andThen a (\<lambda>R. andThen (checkErrors ''FECAESolicitar'' R) (\<lambda>R'.
               andThen (get R' ''FECAESolicitarResult'') (\<lambda>results.
                 if returnResponse = Bool True then Inr results else minimal_result results)))))"
proof (cases "header_count (heap s ! data)")
  case (Inl e)
  with assms show ?thesis by (simp add: createVoucher_unfold)
next
  case (Inr cantReg)
  let ?s1 = "s\<lparr>heap := heap s @ [submitted_detail (heap s ! data)]\<rparr>"
  let ?t = "load s data ''token''"
  obtain r1 s2 where g: "getWSInitialRequest w ?s1 ''FECAESolicitar'' ?t = (r1, s2)"
    by (cases "getWSInitialRequest w ?s1 ''FECAESolicitar'' ?t")
  have "fst (getWSInitialRequest w s ''FECAESolicitar'' ?t) = r1"
    using getWSInitialRequest_fst_heap [where w = w and s = s and op = "''FECAESolicitar''" and ts = ?t
        and h = "heap s @ [submitted_detail (heap s ! data)]"] g by simp
  with g assms Inr show ?thesis
    by (cases r1; cases a)
       (auto simp: createVoucher_unfold executeRequest_mocked andThen_def split: sum.splits)
qed

text \<open>
  The outcome of a request in terms of what the transport answers, for every transport;
  and the same for \<^verbatim>\<open>createVoucher\<close>, once the credential has been obtained.
\<close>

lemma getWSInitialRequest_with_heap:
  "getWSInitialRequest w (s\<lparr>heap := h\<rparr>) op ts =
     (case getWSInitialRequest w s op ts of (r, s1) \<Rightarrow> (r, s1\<lparr>heap := h\<rparr>))"
  by (auto simp: getWSInitialRequest_def call_GetServiceTA_def split: prod.splits sum.splits)

lemma executeRequest_answer:
  assumes g: "getWSInitialRequest w s op ts = (Inr auth, s1)"
  shows "executeRequest w s op params ts =
     (andThen (transport w (trace s1) op
                 (snapshot (heap s1) (PObj (assign_params (case params of None \<Rightarrow> [] | Some ps \<Rightarrow> ps) auth))) ts)
        (\<lambda>R. andThen (checkErrors op R) (\<lambda>R'. get R' (op @ ''Result''))),
      s1\<lparr>trace := trace s1 @ [Soap op (snapshot (heap s1)
         (PObj (assign_params (case params of None \<Rightarrow> [] | Some ps \<Rightarrow> ps) auth))) ts]\<rparr>)"
  using g
  by (cases "transport w (trace s1) op
                 (snapshot (heap s1) (PObj (assign_params (case params of None \<Rightarrow> [] | Some ps \<Rightarrow> ps) auth))) ts")
     (simp_all add: executeRequest_def super_executeRequest_def Let_def andThen_def
        split: sum.splits)

lemma createVoucher_answer:
  assumes "data < length (heap s)"
    and c: "header_count (heap s ! data) = Inr cantReg"
    and g: "getWSInitialRequest w s ''FECAESolicitar'' (load s data ''token'') = (Inr auth, s1)"
  shows "createVoucher w s data returnResponse tokenAndSign =
     (andThen (transport w (trace s1) ''FECAESolicitar'' (sent_request (heap s) data cantReg auth)
                 (load s data ''token''))
        (\<lambda>R. andThen (checkErrors ''FECAESolicitar'' R) (\<lambda>R'.
         andThen (get R' ''FECAESolicitarResult'') (\<lambda>results.
           if returnResponse = Bool True then Inr results else minimal_result results))),
      s1\<lparr>heap := heap s @ [submitted_detail (heap s ! data)],
         trace := trace s1 @ [Soap ''FECAESolicitar'' (sent_request (heap s) data cantReg auth)
                                 (load s data ''token'')]\<rparr>)"
proof -
  let ?h = "heap s @ [submitted_detail (heap s ! data)]"
  have h1: "heap s1 = heap s"
    using getWSInitialRequest_heap [of w s "''FECAESolicitar''" "load s data ''token''"] g by simp
  have g': "getWSInitialRequest w (s\<lparr>heap := ?h\<rparr>) ''FECAESolicitar'' (load s data ''token'') =
      (Inr auth, s1\<lparr>heap := ?h\<rparr>)"
    by (simp add: getWSInitialRequest_with_heap g)
  show ?thesis
    unfolding createVoucher_unfold [OF assms(1)] c executeRequest_answer [OF g'] sent_request_def
    by (simp add: andThen_def split: sum.splits)
qed

lemma sent_detail_sent_request:
  assumes "auth = [(''Auth'', x)]" and "data < length h"
  shows "sent_detail (sent_request h data cantReg auth) =
           Inr (cell_value (submitted_detail (h ! data)))"
  using assms
  by (simp add: sent_request_def sent_detail_def voucher_request_def assign_params_def)

subsection \<open>What \<^verbatim>\<open>_checkErrors\<close> raises\<close>

lemma checkErrors_array_detail:
  assumes "\<not> isArray d"
  shows "checkErrors ''FECAESolicitar'' (FECAESolicitar_response env res fdr (Arr [d])) =
         checkErrors ''FECAESolicitar'' (FECAESolicitar_response env res fdr d)"
  using assms
  by (simp add: checkErrors_def FECAESolicitar_response_def andThen_def put_in_def
        cong: sum.case_cong if_cong)

lemma minimal_result_array_detail:
  assumes "\<not> isArray d"
  shows "minimal_result (Obj (AList.update ''FeDetResp'' (Obj (AList.update ''FECAEDetResponse'' (Arr [d]) fdr)) res)) =
         minimal_result (Obj (AList.update ''FeDetResp'' (Obj (AList.update ''FECAEDetResponse'' d fdr)) res))"
  using assms
  by (simp add: minimal_result_def andThen_def put_in_def)

lemma checkErrors_bare:
  "checkErrors ''FECAESolicitar'' (FECAESolicitar_response env res fdr (Obj det)) =
     (if truthy (lookup det ''Observaciones'') \<and> lookup det ''Resultado'' \<noteq> Str ''A''
      then andThen (get (lookup det ''Observaciones'') ''Obs'') thrown_for
      else if truthy (lookup res ''Errors'')
      then andThen (get (lookup res ''Errors'') ''Err'') thrown_for
      else Inr (FECAESolicitar_response env res fdr (Obj det)))"
proof (cases "truthy (lookup det ''Observaciones'') \<and> lookup det ''Resultado'' \<noteq> Str ''A''")
  case True
  then obtain obs where "get (lookup det ''Observaciones'') ''Obs'' = Inr obs"
    using get_truthy by blast
  with True show ?thesis
    by (simp add: checkErrors_def FECAESolicitar_response_def thrown_for_def)
next
  case False
  show ?thesis
  proof (cases "truthy (lookup res ''Errors'')")
    case True
    then obtain errs where "get (lookup res ''Errors'') ''Err'' = Inr errs"
      using get_truthy by blast
    with True False show ?thesis
      by (auto simp add: checkErrors_def FECAESolicitar_response_def thrown_for_def)
  next
    case no_errors: False
    with False show ?thesis
      by (auto simp add: checkErrors_def FECAESolicitar_response_def)
  qed
qed

lemma thrown_for_first:
  assumes "to_string (lookup ob ''Code'') = Inr c" and "to_string (lookup ob ''Msg'') = Inr m"
  shows "thrown_for (Arr (Obj ob # obs)) =
           Inl (new_Error (''('' @ c @ '') '' @ m) (lookup ob ''Code''))"
  using assms by (simp add: thrown_for_def)

lemma thrown_for_single:
  assumes "to_string (lookup ob ''Code'') = Inr c" and "to_string (lookup ob ''Msg'') = Inr m"
  shows "thrown_for (Obj ob) =
           Inl (new_Error (''('' @ c @ '') '' @ m) (lookup ob ''Code''))"
  using assms by (simp add: thrown_for_def)

lemma thrown_for_Inl: "\<exists>e. thrown_for errs = Inl e"
proof -
  obtain m where m: "(if isArray errs then first errs else Inr errs) = m" by simp
  show ?thesis
  proof (cases m)
    case (Inl e)
    with m show ?thesis by (simp add: thrown_for_def)
  next
    case (Inr err)
    show ?thesis
    proof (cases "get err ''Code''")
      case (Inl e)
      with m Inr show ?thesis by (simp add: thrown_for_def)
    next
      case code: (Inr code)
      then obtain msg where msg: "get err ''Msg'' = Inr msg" by (cases err) auto
      show ?thesis
      proof (cases "to_string code")
        case (Inl e)
        with m Inr code msg show ?thesis by (simp add: thrown_for_def)
      next
        case c: (Inr c)
        with m Inr code msg show ?thesis
          by (cases "to_string msg") (simp_all add: thrown_for_def)
      qed
    qed
  qed
qed

lemma andThen_thrown_for_Inl: "\<exists>e. andThen m thrown_for = Inl e"
  using thrown_for_Inl by (cases m) auto

lemma checkErrors_bare_Inr:
  assumes "checkErrors ''FECAESolicitar'' (FECAESolicitar_response env res fdr (Obj det)) = Inr R"
  shows "R = FECAESolicitar_response env res fdr (Obj det)"
proof -
  have a: "\<And>m. andThen m thrown_for \<noteq> Inr R"
    using andThen_thrown_for_Inl by (metis Inl_Inr_False)
  from assms show ?thesis
    unfolding checkErrors_bare using a by (auto split: if_splits)
qed

lemma minimal_result_bare:
  "minimal_result (Obj (AList.update ''FeDetResp'' (Obj (AList.update ''FECAEDetResponse'' (Obj det) fdr)) res)) =
     andThen (formatDate (lookup det ''CAEFchVto''))
       (\<lambda>f. Inr (Obj [(''CAE'', lookup det ''CAE''), (''CAEFchVto'', f)]))"
  by (simp add: minimal_result_def)

text \<open>
  A rejected voucher: the detail carries observations and an outcome other than \<open>A\<close>.  The
  error raised is built from the first observation; its message is \<^verbatim>\<open>(Code) Msg\<close>, with
  the code and the message as strings \<open>c\<close> and \<open>m\<close>.
\<close>

lemma checkErrors_observations:
  assumes "lookup det ''Observaciones'' = Obj obsv"
    and "lookup obsv ''Obs'' = Arr (Obj ob # others)"
    and "lookup det ''Resultado'' \<noteq> Str ''A''"
    and "to_string (lookup ob ''Code'') = Inr c" and "to_string (lookup ob ''Msg'') = Inr m"
  shows "checkErrors ''FECAESolicitar'' (FECAESolicitar_response env res fdr (Obj det)) =
         Inl (new_Error (''('' @ c @ '') '' @ m) (lookup ob ''Code''))"
  using assms by (simp add: checkErrors_bare thrown_for_first)

text \<open>
  An approved voucher, or one without observations, with no top-level error list: nothing
  is raised and the response is passed on as it is.
\<close>

lemma checkErrors_approved:
  assumes "\<not> truthy (lookup det ''Observaciones'') \<or> lookup det ''Resultado'' = Str ''A''"
    and "\<not> truthy (lookup res ''Errors'')"
  shows "checkErrors ''FECAESolicitar'' (FECAESolicitar_response env res fdr (Obj det)) =
         Inr (FECAESolicitar_response env res fdr (Obj det))"
  using assms by (auto simp add: checkErrors_bare)

text \<open>
  No error raised by \<^verbatim>\<open>_checkErrors\<close> has a \<^verbatim>\<open>code\<close>: the TypeErrors of its property
  reads have none, and \<^verbatim>\<open>new Error(message, err.Code)\<close> does not create one.
\<close>

lemma no_code_Inr [simp]: "no_code (Inr x)"
  by (simp add: no_code_def)

lemma no_code_get [simp]: "no_code (get v k)"
  by (cases v) (simp_all add: no_code_def TypeError_def)

lemma no_code_first [simp]: "no_code (first v)"
  by (cases v rule: first.cases) (simp_all add: no_code_def TypeError_def)

lemma no_code_put [simp]: "no_code (put v k x)"
  by (cases v) (simp_all add: no_code_def TypeError_def split: prod.splits)

lemma no_code_new_Error [simp]: "no_code (Inl (new_Error msg options))"
  by (simp add: no_code_def)

lemma no_code_andThen: "no_code m \<Longrightarrow> (\<And>x. no_code (f x)) \<Longrightarrow> no_code (andThen m f)"
  by (cases m) (simp_all add: no_code_def)

lemma no_code_if: "(c \<Longrightarrow> no_code a) \<Longrightarrow> (\<not> c \<Longrightarrow> no_code b) \<Longrightarrow> no_code (if c then a else b)"
  by simp

lemma no_code_put_in [simp]: "no_code (put_in v k1 k2 x)"
  unfolding put_in_def by (intro no_code_andThen) simp_all

lemma no_code_sequence: "(\<And>m. m \<in> set ms \<Longrightarrow> no_code m) \<Longrightarrow> no_code (sequence ms)"
  by (induction ms) (simp_all add: no_code_andThen)

lemma no_code_not_primitive [simp]: "no_code (Inl not_primitive)"
  by (simp add: no_code_def not_primitive_def TypeError_def)

lemma no_code_to_string [simp]: "no_code (to_string v)"
proof (induction v rule: to_string.induct)
  case (1 v)
  show ?case
    by (subst to_string.simps)
       (auto split: base.splits intro!: no_code_if no_code_andThen no_code_sequence 1)
qed

lemma no_code_checkErrors: "no_code (checkErrors operation results)"
  unfolding checkErrors_def
  by (intro no_code_andThen no_code_if) simp_all

lemma checkErrors_err_code: "checkErrors operation results = Inl e \<Longrightarrow> err_code e = Undefined"
  using no_code_checkErrors [of operation results] by (simp add: no_code_def)

subsection \<open>Dates and substrings\<close>

lemma replace_date_eight:
  assumes "length s = 8" and "list_all is_digit s"
  shows "replace_date s = take 4 s @ ''-'' @ take 2 (drop 4 s) @ ''-'' @ drop 6 s"
proof (cases s)
  case Nil
  with assms show ?thesis by simp
next
  case (Cons c cs)
  with assms show ?thesis by simp
qed

lemma formatDate_eight:
  assumes "toString date = Inr str" and "length str = 8" and "list_all is_digit str"
  shows "formatDate date = Inr (Str (take 4 str @ ''-'' @ take 2 (drop 4 str) @ ''-'' @ drop 6 str))"
  using assms by (simp add: formatDate_def replace_date_eight)

lemma digit_of_is_digit: "k < 10 \<Longrightarrow> is_digit (''0123456789'' ! k)"
proof -
  assume "k < 10"
  then have "k \<in> {0, 1, 2, 3, 4, 5, 6, 7, 8, 9}" by auto
  then show ?thesis by (auto simp: is_digit_def)
qed

lemma show_nat_digits: "list_all is_digit (show_nat n)"
proof (induction n rule: show_nat.induct)
  case (1 n)
  show ?case
  proof (cases "n < 10")
    case True
    then show ?thesis by (subst show_nat.simps) (simp add: digit_of_is_digit)
  next
    case False
    with 1 show ?thesis by (subst show_nat.simps) (simp add: digit_of_is_digit)
  qed
qed

lemma show_nat_length: "10 ^ k \<le> n \<Longrightarrow> n < 10 ^ Suc k \<Longrightarrow> length (show_nat n) = Suc k"
proof (induction k arbitrary: n)
  case 0
  then show ?case by (subst show_nat.simps) simp
next
  case (Suc k)
  from Suc.prems have "\<not> n < 10"
  proof -
    have "(10::nat) \<le> 10 ^ Suc k" by simp
    with Suc.prems(1) show ?thesis by linarith
  qed
  moreover have "10 ^ k \<le> n div 10" using Suc.prems(1) by (simp add: less_eq_div_iff_mult_less_eq)
  moreover have "n div 10 < 10 ^ Suc k" using Suc.prems(2) by (simp add: div_less_iff_less_mult)
  ultimately show ?case
    using Suc.IH [of "n div 10"] by (subst show_nat.simps) simp
qed

lemma formatDate_number:
  assumes "10000000 \<le> n" and "n \<le> 99999999"
  shows "formatDate (Num n) =
           Inr (Str (take 4 (show_int n) @ ''-'' @ take 2 (drop 4 (show_int n)) @ ''-'' @ drop 6 (show_int n)))"
proof -
  have pos: "\<not> n < 0" using assms by simp
  have "10 ^ 7 \<le> nat n" "nat n < 10 ^ Suc 7" using assms by simp_all
  then have "length (show_nat (nat n)) = Suc 7" by (rule show_nat_length)
  then have "length (show_int n) = 8" using pos by (simp add: show_int_def)
  moreover have "list_all is_digit (show_int n)" using pos by (simp add: show_int_def show_nat_digits)
  moreover have "toString (Num n) = Inr (show_int n)" by simp
  ultimately show ?thesis by (simp add: formatDate_eight)
qed

lemma createVoucher_minimal_date:
  assumes cv: "createVoucher (mocked w (Inr (FECAESolicitar_response env res fdr (Obj det))))
                 s data returnResponse tokenAndSign = (Inr result, s')"
    and mode: "returnResponse \<noteq> Bool True"
    and date: "toString (lookup det ''CAEFchVto'') = Inr str" "length str = 8" "list_all is_digit str"
  shows "get result ''CAEFchVto'' =
           Inr (Str (take 4 str @ ''-'' @ take 2 (drop 4 str) @ ''-'' @ drop 6 str))"
proof -
  let ?R = "FECAESolicitar_response env res fdr (Obj det)"
  have valid: "data < length (heap s)"
    using cv by (auto simp: createVoucher_def split: if_splits)
  from cv have "fst (createVoucher (mocked w (Inr ?R)) s data returnResponse tokenAndSign) = Inr result"
    by simp
  then have "andThen (checkErrors ''FECAESolicitar'' ?R) (\<lambda>R'.
               andThen (get R' ''FECAESolicitarResult'') minimal_result) = Inr result"
    using mode by (auto simp: createVoucher_mocked [OF valid] split: sum.splits)
  moreover obtain R' where "checkErrors ''FECAESolicitar'' ?R = Inr R'"
    using calculation by (cases "checkErrors ''FECAESolicitar'' ?R") auto
  moreover from this have "R' = ?R" by (rule checkErrors_bare_Inr)
  ultimately have "andThen (formatDate (lookup det ''CAEFchVto''))
       (\<lambda>f. Inr (Obj [(''CAE'', lookup det ''CAE''), (''CAEFchVto'', f)])) = Inr result"
    by (simp add: FECAESolicitar_response_def minimal_result_bare)
  then show ?thesis
    by (auto simp: formatDate_eight [OF date])
qed

lemma show_20230415: "show_int 20230415 = ''20230415''"
  by (simp add: show_int_def show_nat.simps)







subsection \<open>The example run\<close>

lemma example_createVoucher:
  "createVoucher example_afip example_state 0 (Bool False) Undefined =
     (Inr (Obj [(''CAE'', Str ''70417054367476''), (''CAEFchVto'', Str ''2023-04-15'')]),
      \<lparr>heap = [([(''PtoVta'', Num 1), (''CbteTipo'', Num 6), (''CbteDesde'', Num 1), (''CbteHasta'', Num 1),
                (''Tributos'', Arr [Obj [(''Id'', Num 99), (''Importe'', Num 10)],
                                    Obj [(''Id'', Num 2), (''Importe'', Num 5)]])], None),
               ([(''CbteDesde'', Num 1), (''CbteHasta'', Num 1),
                (''Tributos'', Obj [(''Tributo'', Arr [Obj [(''Id'', Num 99), (''Importe'', Num 10)],
                                                     Obj [(''Id'', Num 2), (''Importe'', Num 5)]])])], None)],
       trace = [TA ''ws_sr_constancia_inscripcion'',
                Soap ''FECAESolicitar''
                  (Obj [(''FeCAEReq'', Obj
                          [(''FeCabReq'', Obj [(''CantReg'', Num 1), (''PtoVta'', Num 1), (''CbteTipo'', Num 6)]),
                           (''FeDetReq'', Obj [(''FECAEDetRequest'',
                              Obj [(''CbteDesde'', Num 1), (''CbteHasta'', Num 1),
                                   (''Tributos'', Obj [(''Tributo'',
                                      Arr [Obj [(''Id'', Num 99), (''Importe'', Num 10)],
                                           Obj [(''Id'', Num 2), (''Importe'', Num 5)]])])])])]),
                        (''Auth'', Obj [(''Token'', Str ''DT''), (''Sign'', Str ''DS''),
                                        (''Cuit'', Num 20111111112)])])
                  Undefined]\<rparr>)"
  by (simp add: eval_defs example_defs)

lemma example_getLastVoucher:
  "getLastVoucher example_afip example_state (Num 1) (Num 6) Undefined =
     (Inr (Num 10),
      example_state\<lparr>trace :=
        [TA ''ws_sr_constancia_inscripcion'',
         Soap ''FECompUltimoAutorizado''
           (Obj [(''PtoVta'', Num 1), (''CbteTipo'', Num 6),
                 (''Auth'', Obj [(''Token'', Str ''DT''), (''Sign'', Str ''DS''),
                                 (''Cuit'', Num 20111111112)])])
           Undefined]\<rparr>)"
  by (simp add: eval_defs example_defs)

lemma example_createNextVoucher:
  "createNextVoucher example_afip example_state 0 (Obj [(''token'', Str ''T''), (''sign'', Str ''S'')]) =
     (Inr (Obj [(''CAE'', Str ''70417054367476''), (''CAEFchVto'', Str ''2023-04-15''),
                (''voucherNumber'', Num 11)]),
      \<lparr>heap = [([(''PtoVta'', Num 1), (''CbteTipo'', Num 6), (''CbteDesde'', Num 11), (''CbteHasta'', Num 11),
                (''Tributos'', Arr [Obj [(''Id'', Num 99), (''Importe'', Num 10)],
                                    Obj [(''Id'', Num 2), (''Importe'', Num 5)]])], None),
               ([(''CbteDesde'', Num 11), (''CbteHasta'', Num 11),
                (''Tributos'', Obj [(''Tributo'', Arr [Obj [(''Id'', Num 99), (''Importe'', Num 10)],
                                                     Obj [(''Id'', Num 2), (''Importe'', Num 5)]])])], None)],
       trace = [TA ''ws_sr_constancia_inscripcion'',
                Soap ''FECompUltimoAutorizado''
                  (Obj [(''PtoVta'', Num 1), (''CbteTipo'', Num 6),
                        (''Auth'', Obj [(''Token'', Str ''DT''), (''Sign'', Str ''DS''),
                                        (''Cuit'', Num 20111111112)])])
                  Undefined,
                TA ''ws_sr_constancia_inscripcion'',
                Soap ''FECAESolicitar''
                  (Obj [(''FeCAEReq'', Obj
                          [(''FeCabReq'', Obj [(''CantReg'', Num 1), (''PtoVta'', Num 1), (''CbteTipo'', Num 6)]),
                           (''FeDetReq'', Obj [(''FECAEDetRequest'',
                              Obj [(''CbteDesde'', Num 11), (''CbteHasta'', Num 11),
                                   (''Tributos'', Obj [(''Tributo'',
                                      Arr [Obj [(''Id'', Num 99), (''Importe'', Num 10)],
                                           Obj [(''Id'', Num 2), (''Importe'', Num 5)]])])])])]),
                        (''Auth'', Obj [(''Token'', Str ''DT''), (''Sign'', Str ''DS''),
                                        (''Cuit'', Num 20111111112)])])
                  Undefined]\<rparr>)"
  by (simp add: eval_defs example_defs)


section \<open>The claims\<close>

subsection \<open>C1: a voucher that is not found\<close>

text \<open>
  C1 says that \<^verbatim>\<open>getVoucherInfo\<close> resolves to \<^verbatim>\<open>null\<close> when the response carries the
  business error 602, and raises an error carrying the code for any other.  The code does
  not do the first: the error \<^verbatim>\<open>_checkErrors\<close> throws has no \<^verbatim>\<open>code\<close> property, so the
  handler's test \<^verbatim>\<open>err.code === 602\<close> fails and the error is thrown again.  At the response
  below, error 602 in a mocked \<^verbatim>\<open>FECompConsultar\<close> answer, the call raises the error with
  message \<^verbatim>\<open>(602) No existen datos\<close>.
\<close>

theorem getVoucherInfo_602_raises:
  "fst (getVoucherInfo
      (mock_afip (Obj [(''token'', Str ''T''), (''sign'', Str ''S'')])
        [(''FECompConsultar'',
          Inr (Obj [(''FECompConsultarResult'',
            Obj [(''Errors'', Obj [(''Err'', Arr [Obj [(''Code'', Num 602), (''Msg'', Str ''No existen datos'')]])])])]))])
      \<lparr>heap = [], trace = []\<rparr> (Num 1) (Num 1) (Num 6) Undefined)
   = Inl \<lparr>err_name = ''Error'', err_message = ''(602) No existen datos'', err_code = Undefined, err_cause = Undefined\<rparr>"
  by (simp add: model_defs)

text \<open>
  The same for every response and every collaborator: when the request fails, with a
  business error or any other, \<^verbatim>\<open>getVoucherInfo\<close> fails.  Even an error that does carry
  the code 602 (one thrown by the transport itself) ends in a failure, because the handler's
  \<^verbatim>\<open>null\<close> is then read as \<^verbatim>\<open>result.ResultGet\<close>.
\<close>

lemma getVoucherInfo_never_catches:
  assumes "fst (executeRequest w s ''FECompConsultar''
            (Some [(''FeCompConsReq'', PObj [(''CbteNro'', Val number), (''PtoVta'', Val salesPoint),
                                           (''CbteTipo'', Val type)])]) tokenAndSign) = Inl err"
  shows "\<exists>e. fst (getVoucherInfo w s number salesPoint type tokenAndSign) = Inl e"
  using assms
  by (auto simp: getVoucherInfo_def Let_def split: prod.splits sum.splits)

lemma getVoucherInfo_business_error:
  assumes "checkErrors ''FECompConsultar'' R = Inl e"
    and "fst (getWSInitialRequest w s ''FECompConsultar'' tokenAndSign) = Inr auth"
  shows "fst (getVoucherInfo (mocked w (Inr R)) s number salesPoint type tokenAndSign) = Inl e"
proof -
  have "err_code e \<noteq> Num 602"
    using checkErrors_err_code [OF assms(1)] by simp
  with assms show ?thesis
    by (cases "getWSInitialRequest w s ''FECompConsultar'' tokenAndSign")
       (simp add: getVoucherInfo_def executeRequest_mocked)
qed

subsection \<open>C2: the credential argument\<close>

text \<open>
  C2 says that a credential passed as the optional argument is the one the request is
  authenticated with, and that the delegate is then not consulted.  \<^verbatim>\<open>createVoucher\<close>
  overwrites its \<^verbatim>\<open>tokenAndSign\<close> parameter with \<^verbatim>\<open>data.token\<close> in its first statement.  Called
  with the credential \<^verbatim>\<open>{token: "T", sign: "S"}\<close> and a \<^verbatim>\<open>data\<close> without a \<^verbatim>\<open>token\<close> field,
  it asks the delegate and sends the delegate's token and sign.
\<close>

theorem createVoucher_discards_credential:
  "trace (snd (createVoucher
      (mock_afip (Obj [(''token'', Str ''DT''), (''sign'', Str ''DS'')])
        [(''FECAESolicitar'',
          Inr (Obj [(''FECAESolicitarResult'', Obj [(''FeDetResp'', Obj [(''FECAEDetResponse'',
            Obj [(''CAE'', Str ''70417054367476''), (''CAEFchVto'', Str ''20230415''),
                 (''Resultado'', Str ''A'')])])])]))])
      \<lparr>heap = [([(''CbteDesde'', Num 1), (''CbteHasta'', Num 1), (''PtoVta'', Num 1), (''CbteTipo'', Num 6)], None)],
       trace = []\<rparr>
      0 (Bool False) (Obj [(''token'', Str ''T''), (''sign'', Str ''S'')])))
   = [TA ''ws_sr_constancia_inscripcion'',
      Soap ''FECAESolicitar''
        (Obj [(''FeCAEReq'', Obj
                [(''FeCabReq'', Obj [(''CantReg'', Num 1), (''PtoVta'', Num 1), (''CbteTipo'', Num 6)]),
                 (''FeDetReq'', Obj [(''FECAEDetRequest'',
                    Obj [(''CbteDesde'', Num 1), (''CbteHasta'', Num 1)])])]),
              (''Auth'', Obj [(''Token'', Str ''DT''), (''Sign'', Str ''DS''), (''Cuit'', Num 20111111112)])])
        Undefined]"
  by (simp add: eval_defs)

text \<open>
  \<^verbatim>\<open>createVoucher\<close> does the same whatever the credential argument is, and
  \<^verbatim>\<open>createNextVoucher\<close> passes its credential to neither of the two calls it makes as a
  credential.  The operations that hand \<^verbatim>\<open>tokenAndSign\<close> to \<^verbatim>\<open>executeRequest\<close> do use it:
  with a credential supplied, \<^verbatim>\<open>executeRequest\<close> sends the request without asking the delegate.
\<close>

lemma createVoucher_credential_argument_unused:
  "createVoucher w s data returnResponse tokenAndSign = createVoucher w s data returnResponse Undefined"
  by (simp add: createVoucher_def)

lemma createNextVoucher_asks_delegate_twice:
  "map (\<lambda>e. case e of TA service \<Rightarrow> service | Soap operation req c \<Rightarrow> operation)
     (trace (snd (createNextVoucher example_afip example_state 0
                    (Obj [(''token'', Str ''T''), (''sign'', Str ''S'')])))) =
     [''ws_sr_constancia_inscripcion'', ''FECompUltimoAutorizado'',
      ''ws_sr_constancia_inscripcion'', ''FECAESolicitar'']"
  by (simp add: example_createNextVoucher)

lemma executeRequest_supplied_credential:
  assumes "truthy tokenAndSign" and "operation \<noteq> ''FEDummy''"
    and "get tokenAndSign ''token'' = Inr token" and "get tokenAndSign ''sign'' = Inr sign"
  shows "events_since s (snd (executeRequest w s operation params tokenAndSign)) =
           [Soap operation
              (snapshot (heap s) (PObj (AList.update ''Auth''
                 (Val (Obj [(''Token'', token), (''Sign'', sign), (''Cuit'', CUIT w)]))
                 (case params of None \<Rightarrow> [] | Some ps \<Rightarrow> ps))))
              tokenAndSign]"
proof -
  have "tokenAndSign \<noteq> Undefined" "tokenAndSign \<noteq> Null"
    using assms(1) by auto
  with assms have "getWSInitialRequest w s operation tokenAndSign =
      (Inr [(''Auth'', Obj [(''Token'', token), (''Sign'', sign), (''Cuit'', CUIT w)])], s)"
    by (simp add: getWSInitialRequest_def destructure_token_sign_def)
  from executeRequest_events [OF this] assms(1) show ?thesis
    by (simp add: assign_params_def)
qed

subsection \<open>C3: the plural fields\<close>

text \<open>
  C3 says that each of \<^verbatim>\<open>Tributos\<close>, \<^verbatim>\<open>Iva\<close>, \<^verbatim>\<open>CbtesAsoc\<close>, \<^verbatim>\<open>Compradores\<close>, \<^verbatim>\<open>Opcionales\<close>
  is wrapped under its singular name if and only if the caller supplied it.  The guard of
  the source is \<^verbatim>\<open>if (data["Tributos"])\<close>: it tests the value, not the presence of the key.
  A caller who supplies \<^verbatim>\<open>Tributos: null\<close> has supplied the field, and the request carries
  \<^verbatim>\<open>Tributos: null\<close> in its detail section, which is not the wrapper \<^verbatim>\<open>{Tributo: null}\<close>.
\<close>

theorem createVoucher_null_field_not_wrapped:
  "map_of [(''CbteDesde'', Num 1), (''CbteHasta'', Num 1), (''PtoVta'', Num 1), (''CbteTipo'', Num 6),
           (''Tributos'', Null)] ''Tributos'' = Some Null \<and>
   trace (snd (createVoucher
      (mock_afip (Obj [(''token'', Str ''DT''), (''sign'', Str ''DS'')])
        [(''FECAESolicitar'',
          Inr (Obj [(''FECAESolicitarResult'', Obj [(''FeDetResp'', Obj [(''FECAEDetResponse'',
            Obj [(''CAE'', Str ''70417054367476''), (''CAEFchVto'', Str ''20230415''),
                 (''Resultado'', Str ''A'')])])])]))])
      \<lparr>heap = [([(''CbteDesde'', Num 1), (''CbteHasta'', Num 1), (''PtoVta'', Num 1), (''CbteTipo'', Num 6),
                (''Tributos'', Null)], None)],
       trace = []\<rparr>
      0 (Bool False) Undefined))
   = [TA ''ws_sr_constancia_inscripcion'',
      Soap ''FECAESolicitar''
        (Obj [(''FeCAEReq'', Obj
                [(''FeCabReq'', Obj [(''CantReg'', Num 1), (''PtoVta'', Num 1), (''CbteTipo'', Num 6)]),
                 (''FeDetReq'', Obj [(''FECAEDetRequest'',
                    Obj [(''CbteDesde'', Num 1), (''CbteHasta'', Num 1), (''Tributos'', Null)])])]),
              (''Auth'', Obj [(''Token'', Str ''DT''), (''Sign'', Str ''DS''), (''Cuit'', Num 20111111112)])])
        Undefined] \<and>
   map_of [(''CbteDesde'', Num 1), (''CbteHasta'', Num 1), (''Tributos'', Null)] ''Tributos'' \<noteq>
     Some (Obj [(''Tributo'', Null)])"
  by (simp add: eval_defs)

text \<open>
  The guard fails in the other direction as well.  A caller's object that has an own key
  \<^verbatim>\<open>__proto__\<close> (an object made by \<^verbatim>\<open>JSON.parse\<close> can have one) and no \<^verbatim>\<open>Tributos\<close>: the copy
  \<^verbatim>\<open>Object.assign({}, data)\<close> gets the object under that key as its prototype, reads
  \<^verbatim>\<open>Tributos\<close> from it, and the request carries a wrapper for a field the caller's object
  does not have.
\<close>

lemma createVoucher_inherited_field_wrapped:
  "map_of [(''CbteDesde'', Num 1), (''CbteHasta'', Num 1), (''PtoVta'', Num 1), (''CbteTipo'', Num 6),
           (''__proto__'', Obj [(''Tributos'', Arr [Obj [(''Id'', Num 99)]])])] ''Tributos'' = None \<and>
   trace (snd (createVoucher
      (mock_afip (Obj [(''token'', Str ''DT''), (''sign'', Str ''DS'')])
        [(''FECAESolicitar'',
          Inr (Obj [(''FECAESolicitarResult'', Obj [(''FeDetResp'', Obj [(''FECAEDetResponse'',
            Obj [(''CAE'', Str ''70417054367476''), (''CAEFchVto'', Str ''20230415''),
                 (''Resultado'', Str ''A'')])])])]))])
      \<lparr>heap = [([(''CbteDesde'', Num 1), (''CbteHasta'', Num 1), (''PtoVta'', Num 1), (''CbteTipo'', Num 6),
                 (''__proto__'', Obj [(''Tributos'', Arr [Obj [(''Id'', Num 99)]])])], None)],
       trace = []\<rparr>
      0 (Bool False) Undefined))
   = [TA ''ws_sr_constancia_inscripcion'',
      Soap ''FECAESolicitar''
        (Obj [(''FeCAEReq'', Obj
                [(''FeCabReq'', Obj [(''CantReg'', Num 1), (''PtoVta'', Num 1), (''CbteTipo'', Num 6)]),
                 (''FeDetReq'', Obj [(''FECAEDetRequest'',
                    Object [(''CbteDesde'', Num 1), (''CbteHasta'', Num 1),
                            (''Tributos'', Obj [(''Tributo'', Arr [Obj [(''Id'', Num 99)]])])]
                      (Some (Obj [(''Tributos'', Arr [Obj [(''Id'', Num 99)]])])))])]),
              (''Auth'', Obj [(''Token'', Str ''DT''), (''Sign'', Str ''DS''), (''Cuit'', Num 20111111112)])])
        Undefined]"
  by (simp add: eval_defs)

text \<open>
  No request is sent at all when the header count cannot be computed.  A \<^verbatim>\<open>CbteHasta\<close> that
  is an object with a data property \<^verbatim>\<open>toString\<close> cannot be converted to a number: the
  subtraction throws a TypeError, after the copy has been made and before anything is sent.
\<close>

lemma createVoucher_header_count_throws:
  "createVoucher
      (mock_afip (Obj [(''token'', Str ''DT''), (''sign'', Str ''DS'')]) [])
      \<lparr>heap = [([(''CbteDesde'', Num 1), (''CbteHasta'', Obj [(''toString'', Num 1)]),
                 (''PtoVta'', Num 1), (''CbteTipo'', Num 6), (''Tributos'', Arr [])], None)],
       trace = []\<rparr>
      0 (Bool False) Undefined
   = (Inl (TypeError ''Cannot convert object to primitive value''),
      \<lparr>heap = [([(''CbteDesde'', Num 1), (''CbteHasta'', Obj [(''toString'', Num 1)]),
                 (''PtoVta'', Num 1), (''CbteTipo'', Num 6), (''Tributos'', Arr [])], None),
               ([(''CbteDesde'', Num 1), (''CbteHasta'', Obj [(''toString'', Num 1)]),
                 (''PtoVta'', Num 1), (''CbteTipo'', Num 6), (''Tributos'', Arr [])], None)],
       trace = []\<rparr>)"
  by (simp add: eval_defs to_number_def to_string.simps not_primitive_def)

text \<open>
  C3 as amended.  Whenever \<^verbatim>\<open>createVoucher\<close> computes the header count \<^verbatim>\<open>CantReg\<close> (the
  subtraction throws on a field that cannot be converted to a number) and obtains the
  credential, it sends exactly one request, a \<^verbatim>\<open>FECAESolicitar\<close> (after asking the delegate,
  when \<^verbatim>\<open>data.token\<close> is falsy).  In the detail section of that request each of the five fields is the object
  \<^verbatim>\<open>{singular: v}\<close> when \<open>v\<close> is truthy (every list is, the empty one too), where \<open>v\<close> is the
  value the copy \<^verbatim>\<open>Object.assign({}, data)\<close> has for the field; when \<open>v\<close> is falsy the field is
  as in the caller's own properties: absent when absent, and the same falsy value when
  present.  For a caller's object without an own key \<^verbatim>\<open>__proto__\<close>, \<open>v\<close> is the caller's own
  property of that name, \<^verbatim>\<open>undefined\<close> when there is none.
\<close>

theorem createVoucher_wraps_truthy_fields:
  assumes "data < length (heap s)"
    and "header_count (heap s ! data) = Inr cantReg"
    and "fst (getWSInitialRequest w s ''FECAESolicitar'' (load s data ''token'')) = Inr auth"
    and "createVoucher w s data returnResponse tokenAndSign = (r, s')"
    and "(plural, singular) \<in> set plural_fields"
  shows "\<exists>req detail proto.
           events_since s s' =
             (if truthy (load s data ''token'') then [] else [TA ''ws_sr_constancia_inscripcion'']) @
             [Soap ''FECAESolicitar'' req (load s data ''token'')] \<and>
           sent_detail req = Inr (Object detail proto) \<and>
           map_of detail plural =
             (if truthy (cell_get (copy_of (heap s ! data)) plural)
              then Some (Obj [(singular, cell_get (copy_of (heap s ! data)) plural)])
              else map_of (fst (heap s ! data)) plural) \<and>
           (map_of (fst (heap s ! data)) ''__proto__'' = None \<longrightarrow>
              cell_get (copy_of (heap s ! data)) plural = lookup (fst (heap s ! data)) plural)"
proof -
  let ?t = "load s data ''token''"
  let ?req = "sent_request (heap s) data cantReg auth"
  let ?sd = "submitted_detail (heap s ! data)"
  obtain s1 where g: "getWSInitialRequest w s ''FECAESolicitar'' ?t = (Inr auth, s1)"
    using assms(3) by (cases "getWSInitialRequest w s ''FECAESolicitar'' ?t") simp
  have tr: "trace s1 = trace s @
      (if truthy ?t then [] else [TA ''ws_sr_constancia_inscripcion''])"
    using getWSInitialRequest_trace [OF g] by simp
  obtain tok sg where a: "auth = [(''Auth'', Obj [(''Token'', tok), (''Sign'', sg), (''Cuit'', CUIT w)])]"
    using getWSInitialRequest_auth [OF g] by auto
  have "trace s' = trace s1 @ [Soap ''FECAESolicitar'' ?req ?t]"
    using createVoucher_answer [OF assms(1,2) g, of returnResponse tokenAndSign] assms(4) by auto
  then have ev: "events_since s s' =
      (if truthy ?t then [] else [TA ''ws_sr_constancia_inscripcion'']) @
      [Soap ''FECAESolicitar'' ?req ?t]"
    by (simp add: events_since_def tr)
  have sd: "sent_detail ?req = Inr (Object (fst ?sd) (snd ?sd))"
    using sent_detail_sent_request [OF a assms(1)] by (simp add: cell_value_def)
  note f1 = map_of_submitted_detail [OF assms(5), of "heap s ! data"]
  have f2: "map_of (fst (heap s ! data)) ''__proto__'' = None \<longrightarrow>
      cell_get (copy_of (heap s ! data)) plural = lookup (fst (heap s ! data)) plural"
    by (simp add: copy_of_plain(2))
  show ?thesis
    by (rule exI [of _ ?req], rule exI [of _ "fst ?sd"], rule exI [of _ "snd ?sd"])
       (intro conjI; (rule ev sd f1 f2))
qed

text \<open>
  Witness for C3 as amended: the example run, whose \<^verbatim>\<open>Tributos\<close> is a list of two entries.
\<close>

theorem createVoucher_wraps_truthy_fields_witness:
  "0 < length (heap example_state) \<and>
   header_count (heap example_state ! 0) = Inr (Num 1) \<and>
   fst (getWSInitialRequest example_afip example_state ''FECAESolicitar''
          (load example_state 0 ''token'')) =
     Inr [(''Auth'', Obj [(''Token'', Str ''DT''), (''Sign'', Str ''DS''), (''Cuit'', Num 20111111112)])] \<and>
   (''Tributos'', ''Tributo'') \<in> set plural_fields \<and>
   map_of (fst (heap example_state ! 0)) ''__proto__'' = None \<and>
   (\<exists>req detail proto.
      events_since example_state
         (snd (createVoucher example_afip example_state 0 (Bool False) Undefined)) =
        [TA ''ws_sr_constancia_inscripcion'', Soap ''FECAESolicitar'' req Undefined] \<and>
      sent_detail req = Inr (Object detail proto) \<and>
      map_of detail ''Tributos'' =
        Some (Obj [(''Tributo'', Arr [Obj [(''Id'', Num 99), (''Importe'', Num 10)],
                                     Obj [(''Id'', Num 2), (''Importe'', Num 5)]])]))"
proof -
  let ?x = "createVoucher example_afip example_state 0 (Bool False) Undefined"
  let ?auth = "[(''Auth'', Obj [(''Token'', Str ''DT''), (''Sign'', Str ''DS''), (''Cuit'', Num 20111111112)])]"
  have h1: "0 < length (heap example_state)"
    by (simp add: example_state_def)
  have hc: "header_count (heap example_state ! 0) = Inr (Num 1)"
    by (simp add: example_state_def header_count_def copy_of_def Object_assign_def
          js_minus_def js_plus_def to_double_small)
  have tok: "load example_state 0 ''token'' = Undefined"
    by (simp add: load_def example_state_def)
  have h2: "fst (getWSInitialRequest example_afip example_state ''FECAESolicitar''
                   (load example_state 0 ''token'')) = Inr ?auth"
    by (simp add: tok getWSInitialRequest_def call_GetServiceTA_def destructure_token_sign_def
          example_afip_def mock_afip_def)
  have h3: "?x = (fst ?x, snd ?x)"
    by simp
  have h4: "(''Tributos'', ''Tributo'') \<in> set plural_fields"
    by (simp add: plural_fields_def)
  have h5: "map_of (fst (heap example_state ! 0)) ''__proto__'' = None"
    by (simp add: example_state_def)
  have l: "lookup (fst (heap example_state ! 0)) ''Tributos'' =
             Arr [Obj [(''Id'', Num 99), (''Importe'', Num 10)],
                  Obj [(''Id'', Num 2), (''Importe'', Num 5)]]"
    by (simp add: example_state_def)
  have v: "cell_get (copy_of (heap example_state ! 0)) ''Tributos'' =
             Arr [Obj [(''Id'', Num 99), (''Importe'', Num 10)],
                  Obj [(''Id'', Num 2), (''Importe'', Num 5)]]"
    by (simp add: copy_of_plain(2) [OF h5] l)
  have c: "\<exists>req detail proto.
      events_since example_state (snd ?x) =
        [TA ''ws_sr_constancia_inscripcion'', Soap ''FECAESolicitar'' req Undefined] \<and>
      sent_detail req = Inr (Object detail proto) \<and>
      map_of detail ''Tributos'' =
        Some (Obj [(''Tributo'', Arr [Obj [(''Id'', Num 99), (''Importe'', Num 10)],
                                     Obj [(''Id'', Num 2), (''Importe'', Num 5)]])])"
    using createVoucher_wraps_truthy_fields [OF h1 hc h2 h3 h4] by (simp add: tok v h5 l)
  show ?thesis
    by (intro conjI) (rule h1 hc h2 h4 h5 c)+
qed

subsection \<open>C4: the caller's object\<close>

text \<open>
  C4.  \<^verbatim>\<open>createVoucher\<close> leaves the caller's object as it found it: after the call the
  object at the caller's address has the same keys with the same values, in the same order.
  The deletions of \<^verbatim>\<open>CantReg\<close>, \<^verbatim>\<open>PtoVta\<close>, \<^verbatim>\<open>CbteTipo\<close> and the wrapping of the plural
  fields happen in the copy made by \<^verbatim>\<open>Object.assign({}, data)\<close>, a new object of the store;
  no object that was in the store before the call is changed.
\<close>

theorem createVoucher_keeps_caller_object:
  "heap (snd (createVoucher w s data returnResponse tokenAndSign)) ! data = heap s ! data \<and>
   take (length (heap s)) (heap (snd (createVoucher w s data returnResponse tokenAndSign))) = heap s"
  by (simp add: createVoucher_heap nth_append)

subsection \<open>C5: observations of a rejected voucher\<close>

text \<open>
  C5 says that a response with observations and an outcome other than \<open>A\<close> raises a
  failure whose code and message are those of the first observation.  The failure raised is
  built from the first observation (lemma \<open>checkErrors_observations\<close>), and nothing is raised
  for an approved voucher without a top-level error list (lemma \<open>checkErrors_approved\<close>).
  But the failure has no code: \<^verbatim>\<open>new Error(message, err.Code)\<close> hands the code to a parameter
  the constructor does not read it from.  At the response below, two observations on a
  rejected voucher, the error raised has the message \<^verbatim>\<open>(10016) El campo CbteFch es invalido\<close>
  and the \<^verbatim>\<open>code\<close> \<^verbatim>\<open>undefined\<close>.
\<close>

theorem createVoucher_observations_error_has_no_code:
  "fst (createVoucher
      (mock_afip (Obj [(''token'', Str ''DT''), (''sign'', Str ''DS'')])
        [(''FECAESolicitar'',
          Inr (Obj [(''FECAESolicitarResult'', Obj [(''FeDetResp'', Obj [(''FECAEDetResponse'',
            Obj [(''Resultado'', Str ''R''),
                 (''Observaciones'', Obj [(''Obs'',
                    Arr [Obj [(''Code'', Num 10016), (''Msg'', Str ''El campo CbteFch es invalido'')],
                         Obj [(''Code'', Num 10048), (''Msg'', Str ''El campo ImpTotal es invalido'')]])])])])])]))])
      \<lparr>heap = [([(''CbteDesde'', Num 1), (''CbteHasta'', Num 1), (''PtoVta'', Num 1), (''CbteTipo'', Num 6)], None)],
       trace = []\<rparr>
      0 (Bool False) Undefined)
   = Inl \<lparr>err_name = ''Error'', err_message = ''(10016) El campo CbteFch es invalido'',
          err_code = Undefined, err_cause = Undefined\<rparr>"
  by (simp add: eval_defs)

subsection \<open>C6: a taxpayer that does not exist\<close>



subsection \<open>C7: a detail section that comes as an array\<close>

text \<open>
  C7.  Whether the mocked transport returns the detail section as the one-element array
  \<^verbatim>\<open>[d]\<close> or as the bare element \<^verbatim>\<open>d\<close>, \<^verbatim>\<open>createVoucher\<close> does the same: the same result or
  error, the same request, the same store.  That holds in both modes, minimal and full;
  and collapsing a detail that has been collapsed changes nothing, so the second collapse,
  in \<^verbatim>\<open>createVoucher\<close> itself, gives the same minimal result as well.
\<close>

theorem createVoucher_array_or_bare_detail:
  assumes "\<not> isArray d"
  shows "createVoucher (mocked w (Inr (FECAESolicitar_response env res fdr (Arr [d])))) s data
           returnResponse tokenAndSign =
         createVoucher (mocked w (Inr (FECAESolicitar_response env res fdr d))) s data
           returnResponse tokenAndSign
       \<and> minimal_result (Obj (AList.update ''FeDetResp''
            (Obj (AList.update ''FECAEDetResponse'' (Arr [d]) fdr)) res)) =
         minimal_result (Obj (AList.update ''FeDetResp''
            (Obj (AList.update ''FECAEDetResponse'' d fdr)) res))"
proof
  show "createVoucher (mocked w (Inr (FECAESolicitar_response env res fdr (Arr [d])))) s data
           returnResponse tokenAndSign =
         createVoucher (mocked w (Inr (FECAESolicitar_response env res fdr d))) s data
           returnResponse tokenAndSign"
  proof (cases "data < length (heap s)")
    case True
    then show ?thesis
      by (cases "header_count (heap s ! data)")
         (simp_all add: createVoucher_unfold
            executeRequest_mocked_cong [OF checkErrors_array_detail [OF assms]])
  next
    case False
    then show ?thesis by (simp add: createVoucher_def)
  qed
next
  show "minimal_result (Obj (AList.update ''FeDetResp''
            (Obj (AList.update ''FECAEDetResponse'' (Arr [d]) fdr)) res)) =
         minimal_result (Obj (AList.update ''FeDetResp''
            (Obj (AList.update ''FECAEDetResponse'' d fdr)) res))"
    using assms by (rule minimal_result_array_detail)
qed

text \<open>
  Witness for C7: the approved detail of the example run, as a one-element array and bare.
\<close>

theorem createVoucher_array_or_bare_detail_witness:
  "\<not> isArray (Obj approved_detail) \<and>
   createVoucher (mocked example_afip (Inr (FECAESolicitar_response [] [] [] (Arr [Obj approved_detail]))))
     example_state 0 (Bool False) Undefined =
   createVoucher (mocked example_afip (Inr (FECAESolicitar_response [] [] [] (Obj approved_detail))))
     example_state 0 (Bool False) Undefined \<and>
   fst (createVoucher (mocked example_afip (Inr (FECAESolicitar_response [] [] [] (Arr [Obj approved_detail]))))
     example_state 0 (Bool False) Undefined) =
     Inr (Obj [(''CAE'', Str ''70417054367476''), (''CAEFchVto'', Str ''2023-04-15'')])"
proof -
  have h: "\<not> isArray (Obj approved_detail)"
    by simp
  have e: "createVoucher (mocked example_afip (Inr (FECAESolicitar_response [] [] [] (Arr [Obj approved_detail]))))
     example_state 0 (Bool False) Undefined =
   createVoucher (mocked example_afip (Inr (FECAESolicitar_response [] [] [] (Obj approved_detail))))
     example_state 0 (Bool False) Undefined"
    using createVoucher_array_or_bare_detail [OF h] by (rule conjunct1)
  have "fst (createVoucher (mocked example_afip (Inr (FECAESolicitar_response [] [] [] (Arr [Obj approved_detail]))))
     example_state 0 (Bool False) Undefined) =
     Inr (Obj [(''CAE'', Str ''70417054367476''), (''CAEFchVto'', Str ''2023-04-15'')])"
    unfolding e by (simp add: example_state_def createVoucher_mocked example_afip_def mock_afip_def
        getWSInitialRequest_def call_GetServiceTA_def destructure_token_sign_def
        FECAESolicitar_response_def approved_detail_def checkErrors_def minimal_result_def
        put_in_def formatDate_def is_digit_def load_def header_count_def copy_of_def
        Object_assign_def cell_get_def cell_value_def js_minus_def js_plus_def to_double_small)
  with h e show ?thesis by (intro conjI)
qed

subsection \<open>C8: the next voucher number\<close>

text \<open>
  C8 says that when \<^verbatim>\<open>getLastVoucher\<close> reports the number \<open>N\<close>, the create request has
  \<^verbatim>\<open>CbteDesde\<close> = \<^verbatim>\<open>CbteHasta\<close> = \<open>N + 1\<close> and the result has \<^verbatim>\<open>voucherNumber\<close> = \<open>N + 1\<close>.  The
  code computes \<^verbatim>\<open>lastVoucher + 1\<close> on doubles.  When the last voucher reported is
  \<open>2 ^ 53\<close> = 9007199254740992, the sum is rounded back to \<open>2 ^ 53\<close>: the request is sent with
  \<^verbatim>\<open>CbteDesde\<close> = \<^verbatim>\<open>CbteHasta\<close> = 9007199254740992 and the result has that \<^verbatim>\<open>voucherNumber\<close>,
  the number of the last voucher and not the next.
\<close>

theorem createNextVoucher_rounds_large_number:
  "fst (getLastVoucher
      (mock_afip (Obj [(''token'', Str ''DT''), (''sign'', Str ''DS'')])
        [(''FECompUltimoAutorizado'',
          Inr (Obj [(''FECompUltimoAutorizadoResult'', Obj [(''CbteNro'', Num 9007199254740992)])])),
         (''FECAESolicitar'',
          Inr (Obj [(''FECAESolicitarResult'', Obj [(''FeDetResp'', Obj [(''FECAEDetResponse'',
            Obj [(''CAE'', Str ''70417054367476''), (''CAEFchVto'', Str ''20230415''),
                 (''Resultado'', Str ''A'')])])])]))])
      \<lparr>heap = [([(''PtoVta'', Num 1), (''CbteTipo'', Num 6)], None)], trace = []\<rparr>
      (Num 1) (Num 6) Undefined)
   = Inr (Num 9007199254740992) \<and>
   createNextVoucher
      (mock_afip (Obj [(''token'', Str ''DT''), (''sign'', Str ''DS'')])
        [(''FECompUltimoAutorizado'',
          Inr (Obj [(''FECompUltimoAutorizadoResult'', Obj [(''CbteNro'', Num 9007199254740992)])])),
         (''FECAESolicitar'',
          Inr (Obj [(''FECAESolicitarResult'', Obj [(''FeDetResp'', Obj [(''FECAEDetResponse'',
            Obj [(''CAE'', Str ''70417054367476''), (''CAEFchVto'', Str ''20230415''),
                 (''Resultado'', Str ''A'')])])])]))])
      \<lparr>heap = [([(''PtoVta'', Num 1), (''CbteTipo'', Num 6)], None)], trace = []\<rparr>
      0 Undefined
   = (Inr (Obj [(''CAE'', Str ''70417054367476''), (''CAEFchVto'', Str ''2023-04-15''),
                (''voucherNumber'', Num 9007199254740992)]),
      \<lparr>heap = [([(''PtoVta'', Num 1), (''CbteTipo'', Num 6),
                 (''CbteDesde'', Num 9007199254740992), (''CbteHasta'', Num 9007199254740992)], None),
               ([(''CbteDesde'', Num 9007199254740992), (''CbteHasta'', Num 9007199254740992)], None)],
       trace = [TA ''ws_sr_constancia_inscripcion'',
                Soap ''FECompUltimoAutorizado''
                  (Obj [(''PtoVta'', Num 1), (''CbteTipo'', Num 6),
                        (''Auth'', Obj [(''Token'', Str ''DT''), (''Sign'', Str ''DS''),
                                        (''Cuit'', Num 20111111112)])])
                  Undefined,
                TA ''ws_sr_constancia_inscripcion'',
                Soap ''FECAESolicitar''
                  (Obj [(''FeCAEReq'', Obj
                          [(''FeCabReq'', Obj [(''CantReg'', Num 1), (''PtoVta'', Num 1), (''CbteTipo'', Num 6)]),
                           (''FeDetReq'', Obj [(''FECAEDetRequest'',
                              Obj [(''CbteDesde'', Num 9007199254740992),
                                   (''CbteHasta'', Num 9007199254740992)])])]),
                        (''Auth'', Obj [(''Token'', Str ''DT''), (''Sign'', Str ''DS''),
                                        (''Cuit'', Num 20111111112)])])
                  Undefined]\<rparr>) \<and>
   Num 9007199254740992 \<noteq> Num (9007199254740992 + 1)"
  by (simp add: eval_defs to_double_2_53_plus_1)

text \<open>
  C8 as amended, for a last voucher number \<open>n\<close> with \<open>- 2 ^ 53 \<le> n < 2 ^ 53\<close>, the range in
  which \<open>n\<close> and \<open>n + 1\<close> are doubles.  When \<^verbatim>\<open>getLastVoucher\<close> reports \<open>n\<close> and the credential
  for the create request is obtained, \<^verbatim>\<open>createNextVoucher\<close> then sends exactly one request, a
  \<^verbatim>\<open>FECAESolicitar\<close> (after asking the delegate, when \<^verbatim>\<open>data.token\<close> is falsy), whose detail
  section has \<^verbatim>\<open>CbteDesde\<close> = \<^verbatim>\<open>CbteHasta\<close> = \<open>n + 1\<close>.  What it returns is what the transport
  answers to that request, checked for errors and reduced as \<^verbatim>\<open>createVoucher\<close> does (in full
  mode when the credential argument is \<^verbatim>\<open>true\<close>, which lands in \<^verbatim>\<open>returnResponse\<close>), with
  \<^verbatim>\<open>voucherNumber\<close> set to \<open>n + 1\<close>; so every result returned has \<^verbatim>\<open>voucherNumber\<close> = \<open>n + 1\<close>.
\<close>

theorem createNextVoucher_uses_next_number:
  assumes "data < length (heap s)"
    and "getLastVoucher w s (load s data ''PtoVta'') (load s data ''CbteTipo'') Undefined = (Inr (Num n), s1)"
    and "- 9007199254740992 \<le> n" and "n < 9007199254740992"
    and "fst (getWSInitialRequest w s1 ''FECAESolicitar'' (load s data ''token'')) = Inr auth"
    and "createNextVoucher w s data tokenAndSign = (r, s')"
  shows "\<exists>req detail.
           events_since s1 s' =
             (if truthy (load s data ''token'') then [] else [TA ''ws_sr_constancia_inscripcion'']) @
             [Soap ''FECAESolicitar'' req (load s data ''token'')] \<and>
           sent_detail req = Inr detail \<and>
           get detail ''CbteDesde'' = Inr (Num (n + 1)) \<and>
           get detail ''CbteHasta'' = Inr (Num (n + 1)) \<and>
           r = andThen (transport w
                          (trace s1 @ (if truthy (load s data ''token'') then []
                                       else [TA ''ws_sr_constancia_inscripcion'']))
                          ''FECAESolicitar'' req (load s data ''token''))
                 (\<lambda>R. andThen (checkErrors ''FECAESolicitar'' R) (\<lambda>R'.
                  andThen (get R' ''FECAESolicitarResult'') (\<lambda>results.
                  andThen (if tokenAndSign = Bool True then Inr results else minimal_result results)
                    (\<lambda>res. put res ''voucherNumber'' (Num (n + 1)))))) \<and>
           (\<forall>res. r = Inr res \<longrightarrow> get res ''voucherNumber'' = Inr (Num (n + 1)))"
proof -
  let ?vn = "Num (n + 1)"
  let ?t = "load s data ''token''"
  let ?ta = "if truthy ?t then [] else [TA ''ws_sr_constancia_inscripcion'']"
  let ?c1 = "set_prop (heap s ! data) ''CbteDesde'' ?vn"
  let ?c2 = "set_prop ?c1 ''CbteHasta'' ?vn"
  let ?s2 = "s1\<lparr>heap := (heap s)[data := ?c2]\<rparr>"
  let ?req = "sent_request (heap ?s2) data (Num 1) auth"
  let ?sd = "submitted_detail ?c2"
  have h1: "heap s1 = heap s"
    using getLastVoucher_heap [of w s "load s data ''PtoVta''" "load s data ''CbteTipo''" Undefined]
      assms(2) by simp
  have vn: "js_plus (Num n) (Num 1) = Inr ?vn"
    using assms(3,4) by (rule js_plus_one)
  have s2: "store (store s1 data ''CbteDesde'' ?vn) data ''CbteHasta'' ?vn = ?s2"
    using assms(1) by (simp add: store_def h1)
  have valid: "data < length (heap ?s2)"
    using assms(1) by simp
  have cell: "heap ?s2 ! data = ?c2"
    using assms(1) by simp
  have own: "map_of (fst ?c2) ''CbteDesde'' = Some ?vn" "map_of (fst ?c2) ''CbteHasta'' = Some ?vn"
    by (simp_all add: set_prop_cell update_conv')
  have "cell_get (copy_of ?c2) ''CbteDesde'' = ?vn" "cell_get (copy_of ?c2) ''CbteHasta'' = ?vn"
    by (simp_all add: cell_get_own map_of_fst_copy_of own)
  then have hc: "header_count (heap ?s2 ! data) = Inr (Num 1)"
    unfolding cell by (simp add: header_count_def js_minus_Num js_plus_Num to_double_small)
  have "cell_get ?c2 ''token'' = cell_get (heap s ! data) ''token''"
    by (rule cell_get_cong) (simp_all add: set_prop_cell update_conv')
  then have tok: "load ?s2 data ''token'' = ?t"
    using assms(1) by (simp add: load_def)
  obtain s3 where g: "getWSInitialRequest w ?s2 ''FECAESolicitar'' (load ?s2 data ''token'') = (Inr auth, s3)"
    using assms(5) unfolding tok
    by (cases "getWSInitialRequest w s1 ''FECAESolicitar'' ?t")
       (simp add: getWSInitialRequest_with_heap)
  have tr: "trace s3 = trace s1 @ ?ta"
    using getWSInitialRequest_trace [OF g] by (simp add: tok)
  obtain tok' sg where a: "auth = [(''Auth'', Obj [(''Token'', tok'), (''Sign'', sg), (''Cuit'', CUIT w)])]"
    using getWSInitialRequest_auth [OF g] by auto
  note cv = createVoucher_answer [OF valid hc g, of tokenAndSign Undefined]
  have "createNextVoucher w s data tokenAndSign =
      (case createVoucher w ?s2 data tokenAndSign Undefined of
         (Inl e, s) \<Rightarrow> (Inl e, s)
       | (Inr res, s) \<Rightarrow> (put res ''voucherNumber'' ?vn, s))"
    using assms(1,2) by (simp add: createNextVoucher_def Let_def vn s2)
  then have run: "(r, s') =
      (andThen (fst (createVoucher w ?s2 data tokenAndSign Undefined))
         (\<lambda>res. put res ''voucherNumber'' ?vn),
       snd (createVoucher w ?s2 data tokenAndSign Undefined))"
    unfolding assms(6) cv case_andThen by (simp only: fst_conv snd_conv)
  have s': "trace s' = trace s3 @ [Soap ''FECAESolicitar'' ?req ?t]"
    using run unfolding cv tok by simp
  have ev: "events_since s1 s' = ?ta @ [Soap ''FECAESolicitar'' ?req ?t]"
    by (simp add: events_since_def s' tr)
  have sd: "sent_detail ?req = Inr (cell_value ?sd)"
    using sent_detail_sent_request [OF a valid] by (simp only: cell)
  have "map_of (fst ?sd) ''CbteDesde'' = Some ?vn" "map_of (fst ?sd) ''CbteHasta'' = Some ?vn"
    by (simp_all add: map_of_submitted_detail_other own)
  then have d: "get (cell_value ?sd) ''CbteDesde'' = Inr ?vn" "get (cell_value ?sd) ''CbteHasta'' = Inr ?vn"
    by (simp_all add: cell_value_def get_prop_own)
  have r: "r = andThen (transport w (trace s1 @ ?ta) ''FECAESolicitar'' ?req ?t)
                 (\<lambda>R. andThen (checkErrors ''FECAESolicitar'' R) (\<lambda>R'.
                  andThen (get R' ''FECAESolicitarResult'') (\<lambda>results.
                  andThen (if tokenAndSign = Bool True then Inr results else minimal_result results)
                    (\<lambda>res. put res ''voucherNumber'' ?vn))))"
    using run unfolding cv tok tr fst_conv andThen_assoc by (simp only: prod.inject)
  have ret: "\<forall>res. r = Inr res \<longrightarrow> get res ''voucherNumber'' = Inr ?vn"
  proof (intro allI impI)
    fix res
    assume "r = Inr res"
    with run obtain res0 where "put res0 ''voucherNumber'' ?vn = Inr res"
      by (cases "fst (createVoucher w ?s2 data tokenAndSign Undefined)") simp_all
    then show "get res ''voucherNumber'' = Inr ?vn"
      by (rule put_then_get) simp
  qed
  show ?thesis
    by (rule exI [of _ ?req], rule exI [of _ "cell_value ?sd"])
       (intro conjI; (rule ev sd d r ret))
qed

text \<open>
  Witness for C8 as amended: the example run, in which the last authorised voucher is
  number 10; the create request has 11 in both fields and the result has \<^verbatim>\<open>voucherNumber\<close> 11.
\<close>

theorem createNextVoucher_uses_next_number_witness:
  "0 < length (heap example_state) \<and>
   fst (getLastVoucher example_afip example_state (load example_state 0 ''PtoVta'')
          (load example_state 0 ''CbteTipo'') Undefined) = Inr (Num 10) \<and>
   - 9007199254740992 \<le> (10 :: int) \<and> (10 :: int) < 9007199254740992 \<and>
   fst (getWSInitialRequest example_afip
          (snd (getLastVoucher example_afip example_state (load example_state 0 ''PtoVta'')
                  (load example_state 0 ''CbteTipo'') Undefined))
          ''FECAESolicitar'' (load example_state 0 ''token'')) =
     Inr [(''Auth'', Obj [(''Token'', Str ''DT''), (''Sign'', Str ''DS''), (''Cuit'', Num 20111111112)])] \<and>
   fst (createNextVoucher example_afip example_state 0 (Obj [(''token'', Str ''T''), (''sign'', Str ''S'')])) =
     Inr (Obj [(''CAE'', Str ''70417054367476''), (''CAEFchVto'', Str ''2023-04-15''),
               (''voucherNumber'', Num 11)]) \<and>
   get (Obj [(''CAE'', Str ''70417054367476''), (''CAEFchVto'', Str ''2023-04-15''),
             (''voucherNumber'', Num 11)]) ''voucherNumber'' = Inr (Num (10 + 1)) \<and>
   (\<exists>req detail.
      events_since
        (snd (getLastVoucher example_afip example_state (load example_state 0 ''PtoVta'')
                (load example_state 0 ''CbteTipo'') Undefined))
        (snd (createNextVoucher example_afip example_state 0
                (Obj [(''token'', Str ''T''), (''sign'', Str ''S'')]))) =
        [TA ''ws_sr_constancia_inscripcion'', Soap ''FECAESolicitar'' req Undefined] \<and>
      sent_detail req = Inr detail \<and>
      get detail ''CbteDesde'' = Inr (Num (10 + 1)) \<and>
      get detail ''CbteHasta'' = Inr (Num (10 + 1)))"
proof -
  let ?g = "getLastVoucher example_afip example_state (load example_state 0 ''PtoVta'')
              (load example_state 0 ''CbteTipo'') Undefined"
  let ?x = "createNextVoucher example_afip example_state 0 (Obj [(''token'', Str ''T''), (''sign'', Str ''S'')])"
  let ?res = "Obj [(''CAE'', Str ''70417054367476''), (''CAEFchVto'', Str ''2023-04-15''),
                   (''voucherNumber'', Num 11)]"
  let ?auth = "[(''Auth'', Obj [(''Token'', Str ''DT''), (''Sign'', Str ''DS''), (''Cuit'', Num 20111111112)])]"
  have ld: "load example_state 0 ''PtoVta'' = Num 1" "load example_state 0 ''CbteTipo'' = Num 6"
    "load example_state 0 ''token'' = Undefined"
    by (simp_all add: load_def example_state_def)
  have h1: "0 < length (heap example_state)"
    by (simp add: example_state_def)
  have g: "fst ?g = Inr (Num 10)"
    by (simp add: ld example_getLastVoucher)
  then have h2: "?g = (Inr (Num 10), snd ?g)"
    by (simp add: prod_eq_iff)
  have h3: "- 9007199254740992 \<le> (10 :: int)" and h4: "(10 :: int) < 9007199254740992"
    by simp_all
  have h5: "fst (getWSInitialRequest example_afip (snd ?g) ''FECAESolicitar''
                   (load example_state 0 ''token'')) = Inr ?auth"
    by (simp add: ld getWSInitialRequest_def call_GetServiceTA_def destructure_token_sign_def
          example_afip_def mock_afip_def)
  have h6: "?x = (fst ?x, snd ?x)"
    by simp
  have r: "fst ?x = Inr ?res"
    by (simp add: example_createNextVoucher)
  note inst = createNextVoucher_uses_next_number [OF h1 h2 h3 h4 h5 h6]
  from inst have c1: "\<exists>req detail.
      events_since (snd ?g) (snd ?x) =
        [TA ''ws_sr_constancia_inscripcion'', Soap ''FECAESolicitar'' req Undefined] \<and>
      sent_detail req = Inr detail \<and>
      get detail ''CbteDesde'' = Inr (Num (10 + 1)) \<and>
      get detail ''CbteHasta'' = Inr (Num (10 + 1))"
    by (elim exE conjE) (simp add: ld)
  from inst r have c2: "get ?res ''voucherNumber'' = Inr (Num (10 + 1))"
    by (elim exE conjE) simp
  show ?thesis
    by (intro conjI) (rule h1 g h3 h4 h5 r c2 c1)+
qed

subsection \<open>C9: dates\<close>

text \<open>
  C9.  For every date whose string form is eight decimal digits, \<^verbatim>\<open>formatDate\<close> returns
  the first four, a hyphen, the next two, a hyphen and the last two; every number from
  10000000 to 99999999 is such a date; 20230415 becomes 2023-04-15; and the \<^verbatim>\<open>CAEFchVto\<close> that \<^verbatim>\<open>createVoucher\<close> returns in minimal mode is the
  response's \<^verbatim>\<open>CAEFchVto\<close> formatted this way.
\<close>

theorem formatDate_yyyymmdd:
  "(\<forall>date str. toString date = Inr str \<and> length str = 8 \<and> list_all is_digit str \<longrightarrow>
      formatDate date = Inr (Str (take 4 str @ ''-'' @ take 2 (drop 4 str) @ ''-'' @ drop 6 str)))
   \<and> (\<forall>n. 10000000 \<le> n \<and> n \<le> 99999999 \<longrightarrow>
        formatDate (Num n) =
          Inr (Str (take 4 (show_int n) @ ''-'' @ take 2 (drop 4 (show_int n)) @ ''-'' @ drop 6 (show_int n))))
   \<and> formatDate (Num 20230415) = Inr (Str ''2023-04-15'')
   \<and> (\<forall>w env res fdr det s data returnResponse tokenAndSign result s' str.
        createVoucher (mocked w (Inr (FECAESolicitar_response env res fdr (Obj det))))
          s data returnResponse tokenAndSign = (Inr result, s')
        \<and> returnResponse \<noteq> Bool True
        \<and> toString (lookup det ''CAEFchVto'') = Inr str \<and> length str = 8 \<and> list_all is_digit str \<longrightarrow>
        get result ''CAEFchVto'' =
          Inr (Str (take 4 str @ ''-'' @ take 2 (drop 4 str) @ ''-'' @ drop 6 str)))"
proof (intro conjI allI impI)
  fix date str
  assume "toString date = Inr str \<and> length str = 8 \<and> list_all is_digit str"
  then show "formatDate date = Inr (Str (take 4 str @ ''-'' @ take 2 (drop 4 str) @ ''-'' @ drop 6 str))"
    by (simp add: formatDate_eight)
next
  fix n :: int
  assume "10000000 \<le> n \<and> n \<le> 99999999"
  then show "formatDate (Num n) =
          Inr (Str (take 4 (show_int n) @ ''-'' @ take 2 (drop 4 (show_int n)) @ ''-'' @ drop 6 (show_int n)))"
    by (simp add: formatDate_number)
next
  show "formatDate (Num 20230415) = Inr (Str ''2023-04-15'')"
    by (simp add: formatDate_def show_20230415 is_digit_def)
next
  fix w env res fdr det s data returnResponse tokenAndSign result s' str
  assume "createVoucher (mocked w (Inr (FECAESolicitar_response env res fdr (Obj det))))
          s data returnResponse tokenAndSign = (Inr result, s')
        \<and> returnResponse \<noteq> Bool True
        \<and> toString (lookup det ''CAEFchVto'') = Inr str \<and> length str = 8 \<and> list_all is_digit str"
  then show "get result ''CAEFchVto'' =
          Inr (Str (take 4 str @ ''-'' @ take 2 (drop 4 str) @ ''-'' @ drop 6 str))"
    using createVoucher_minimal_date by blast
qed

text \<open>
  Witness for C9: the date 20230415 as a string, and as the \<^verbatim>\<open>CAEFchVto\<close> of the example run.
\<close>

theorem formatDate_yyyymmdd_witness:
  "toString (Str ''20230415'') = Inr ''20230415'' \<and> length ''20230415'' = 8 \<and>
   list_all is_digit ''20230415'' \<and>
   formatDate (Str ''20230415'') = Inr (Str ''2023-04-15'') \<and>
   createVoucher (mocked example_afip (Inr (FECAESolicitar_response [] [] [] (Obj approved_detail))))
     example_state 0 (Bool False) Undefined =
     (Inr (Obj [(''CAE'', Str ''70417054367476''), (''CAEFchVto'', Str ''2023-04-15'')]),
      snd (createVoucher (mocked example_afip (Inr (FECAESolicitar_response [] [] [] (Obj approved_detail))))
             example_state 0 (Bool False) Undefined)) \<and>
   Bool False \<noteq> Bool True \<and>
   toString (lookup approved_detail ''CAEFchVto'') = Inr ''20230415'' \<and>
   get (Obj [(''CAE'', Str ''70417054367476''), (''CAEFchVto'', Str ''2023-04-15'')]) ''CAEFchVto'' =
     Inr (Str ''2023-04-15'')"
proof -
  let ?w = "mocked example_afip (Inr (FECAESolicitar_response [] [] [] (Obj approved_detail)))"
  let ?x = "createVoucher ?w example_state 0 (Bool False) Undefined"
  let ?res = "Obj [(''CAE'', Str ''70417054367476''), (''CAEFchVto'', Str ''2023-04-15'')]"
  have a1: "toString (Str ''20230415'') = Inr ''20230415''" by simp
  have a2: "length ''20230415'' = 8" by simp
  have a3: "list_all is_digit ''20230415''" by (simp add: is_digit_def)
  have b1: "fst ?x = Inr ?res"
    by (simp add: example_state_def createVoucher_mocked example_afip_def mock_afip_def
        getWSInitialRequest_def call_GetServiceTA_def destructure_token_sign_def
        FECAESolicitar_response_def approved_detail_def checkErrors_def minimal_result_def
        put_in_def formatDate_def is_digit_def load_def header_count_def copy_of_def
        Object_assign_def cell_get_def cell_value_def js_minus_def js_plus_def to_double_small)
  then have b2: "?x = (Inr ?res, snd ?x)" by (simp add: prod_eq_iff)
  have b3: "Bool False \<noteq> Bool True" by simp
  have b4: "toString (lookup approved_detail ''CAEFchVto'') = Inr ''20230415''"
    by (simp add: approved_detail_def)
  have c1: "formatDate (Str ''20230415'') =
      Inr (Str (take 4 ''20230415'' @ ''-'' @ take 2 (drop 4 ''20230415'') @ ''-'' @ drop 6 ''20230415''))"
    by (rule formatDate_yyyymmdd [THEN conjunct1, rule_format, of "Str ''20230415''" "''20230415''"])
       (intro conjI a1 a2 a3)
  have c2: "get ?res ''CAEFchVto'' =
      Inr (Str (take 4 ''20230415'' @ ''-'' @ take 2 (drop 4 ''20230415'') @ ''-'' @ drop 6 ''20230415''))"
    by (rule formatDate_yyyymmdd [THEN conjunct2, THEN conjunct2, THEN conjunct2, rule_format,
        of example_afip "[]" "[]" "[]" approved_detail example_state 0 "Bool False" Undefined ?res
           "snd ?x" "''20230415''"])
       (intro conjI b2 b3 b4 a2 a3)
  from c1 have d1: "formatDate (Str ''20230415'') = Inr (Str ''2023-04-15'')" by simp
  from c2 have d2: "get ?res ''CAEFchVto'' = Inr (Str ''2023-04-15'')" by simp
  show ?thesis
    by (intro conjI) (rule a1 a2 a3 d1 b2 b3 b4 d2)+
qed

subsection \<open>C10: the service the credential is asked for\<close>

text \<open>
  C10.  An operation other than \<^verbatim>\<open>FEDummy\<close> called without a credential first asks the
  delegate for a credential of the service \<^verbatim>\<open>ws_sr_constancia_inscripcion\<close>, once, and the
  request carries what the delegate answered; that name is not \<^verbatim>\<open>wsfe\<close>, the service the
  client is constructed with.  For \<^verbatim>\<open>FEDummy\<close> the delegate is not asked and the parameters
  are sent as they are, with no \<^verbatim>\<open>Auth\<close> block: \<^verbatim>\<open>getServerStatus\<close> sends the empty object.
\<close>

theorem credential_service_name:
  "(operation \<noteq> ''FEDummy'' \<and> \<not> truthy tokenAndSign \<longrightarrow>
      (\<exists>rest. events_since s (snd (executeRequest w s operation params tokenAndSign)) =
                 TA ''ws_sr_constancia_inscripcion'' # rest \<and>
               (\<forall>service. TA service \<notin> set rest)) \<and>
      (\<forall>ta. GetServiceTA w (trace s) ''ws_sr_constancia_inscripcion'' = Inr (Obj ta) \<longrightarrow>
         events_since s (snd (executeRequest w s operation params tokenAndSign)) =
           [TA ''ws_sr_constancia_inscripcion'',
            Soap operation
              (snapshot (heap s) (PObj (AList.update ''Auth''
                 (Val (Obj [(''Token'', lookup ta ''token''), (''Sign'', lookup ta ''sign''),
                            (''Cuit'', CUIT w)]))
                 (case params of None \<Rightarrow> [] | Some ps \<Rightarrow> ps))))
              tokenAndSign]))
   \<and> ''ws_sr_constancia_inscripcion'' \<noteq> ElectronicBilling_service
   \<and> events_since s (snd (executeRequest w s ''FEDummy'' params tokenAndSign)) =
       [Soap ''FEDummy'' (snapshot (heap s) (PObj (case params of None \<Rightarrow> [] | Some ps \<Rightarrow> ps)))
          tokenAndSign]
   \<and> events_since s (snd (getServerStatus w s tokenAndSign)) = [Soap ''FEDummy'' (Obj []) tokenAndSign]"
proof (intro conjI impI allI)
  assume a: "operation \<noteq> ''FEDummy'' \<and> \<not> truthy tokenAndSign"
  obtain r1 s1 where g: "getWSInitialRequest w s operation tokenAndSign = (r1, s1)"
    by (cases "getWSInitialRequest w s operation tokenAndSign")
  show "\<exists>rest. events_since s (snd (executeRequest w s operation params tokenAndSign)) =
                 TA ''ws_sr_constancia_inscripcion'' # rest \<and>
               (\<forall>service. TA service \<notin> set rest)"
    using a by (cases r1) (simp_all add: executeRequest_events [OF g])
next
  fix ta
  assume a: "operation \<noteq> ''FEDummy'' \<and> \<not> truthy tokenAndSign"
    and d: "GetServiceTA w (trace s) ''ws_sr_constancia_inscripcion'' = Inr (Obj ta)"
  obtain r1 s1 where g: "getWSInitialRequest w s operation tokenAndSign = (r1, s1)"
    by (cases "getWSInitialRequest w s operation tokenAndSign")
  have "r1 = Inr [(''Auth'', Obj [(''Token'', lookup ta ''token''), (''Sign'', lookup ta ''sign''),
                               (''Cuit'', CUIT w)])]"
    using getWSInitialRequest_delegate [of operation tokenAndSign w s ta] a d g by simp
  then show "events_since s (snd (executeRequest w s operation params tokenAndSign)) =
           [TA ''ws_sr_constancia_inscripcion'',
            Soap operation
              (snapshot (heap s) (PObj (AList.update ''Auth''
                 (Val (Obj [(''Token'', lookup ta ''token''), (''Sign'', lookup ta ''sign''),
                            (''Cuit'', CUIT w)]))
                 (case params of None \<Rightarrow> [] | Some ps \<Rightarrow> ps))))
              tokenAndSign]"
    using a by (simp add: executeRequest_events [OF g] assign_params_def)
next
  show "''ws_sr_constancia_inscripcion'' \<noteq> ElectronicBilling_service"
    by (simp add: ElectronicBilling_service_def)
next
  show "events_since s (snd (executeRequest w s ''FEDummy'' params tokenAndSign)) =
       [Soap ''FEDummy'' (snapshot (heap s) (PObj (case params of None \<Rightarrow> [] | Some ps \<Rightarrow> ps)))
          tokenAndSign]"
    by (simp add: executeRequest_events [OF getWSInitialRequest_FEDummy] assign_params_def)
next
  show "events_since s (snd (getServerStatus w s tokenAndSign)) = [Soap ''FEDummy'' (Obj []) tokenAndSign]"
    by (simp add: getServerStatus_def executeRequest_events [OF getWSInitialRequest_FEDummy]
          assign_params_def)
qed

text \<open>
  Witness for C10: \<^verbatim>\<open>FECompUltimoAutorizado\<close> without a credential in the example run.
\<close>

theorem credential_service_name_witness:
  "''FECompUltimoAutorizado'' \<noteq> ''FEDummy'' \<and> \<not> truthy Undefined \<and>
   GetServiceTA example_afip (trace example_state) ''ws_sr_constancia_inscripcion'' =
     Inr (Obj [(''token'', Str ''DT''), (''sign'', Str ''DS'')]) \<and>
   events_since example_state
     (snd (executeRequest example_afip example_state ''FECompUltimoAutorizado''
             (Some [(''PtoVta'', Val (Num 1)), (''CbteTipo'', Val (Num 6))]) Undefined)) =
     [TA ''ws_sr_constancia_inscripcion'',
      Soap ''FECompUltimoAutorizado''
        (Obj [(''PtoVta'', Num 1), (''CbteTipo'', Num 6),
              (''Auth'', Obj [(''Token'', Str ''DT''), (''Sign'', Str ''DS''), (''Cuit'', Num 20111111112)])])
        Undefined]"
proof -
  let ?ta = "[(''token'', Str ''DT''), (''sign'', Str ''DS'')]"
  let ?ps = "Some [(''PtoVta'', Val (Num 1)), (''CbteTipo'', Val (Num 6))]"
  have h1: "''FECompUltimoAutorizado'' \<noteq> ''FEDummy'' \<and> \<not> truthy Undefined" by simp
  have h2: "GetServiceTA example_afip (trace example_state) ''ws_sr_constancia_inscripcion'' =
     Inr (Obj ?ta)"
    by (simp add: example_afip_def mock_afip_def)
  from credential_service_name [of "''FECompUltimoAutorizado''" Undefined example_state example_afip ?ps]
  have "''FECompUltimoAutorizado'' \<noteq> ''FEDummy'' \<and> \<not> truthy Undefined \<longrightarrow>
      (\<forall>ta. GetServiceTA example_afip (trace example_state) ''ws_sr_constancia_inscripcion'' = Inr (Obj ta) \<longrightarrow>
         events_since example_state (snd (executeRequest example_afip example_state ''FECompUltimoAutorizado'' ?ps Undefined)) =
           [TA ''ws_sr_constancia_inscripcion'',
            Soap ''FECompUltimoAutorizado''
              (snapshot (heap example_state) (PObj (AList.update ''Auth''
                 (Val (Obj [(''Token'', lookup ta ''token''), (''Sign'', lookup ta ''sign''),
                            (''Cuit'', CUIT example_afip)]))
                 (case ?ps of None \<Rightarrow> [] | Some ps \<Rightarrow> ps))))
              Undefined])"
    by (elim conjE) iprover
  with h1 h2 have "events_since example_state (snd (executeRequest example_afip example_state ''FECompUltimoAutorizado'' ?ps Undefined)) =
           [TA ''ws_sr_constancia_inscripcion'',
            Soap ''FECompUltimoAutorizado''
              (snapshot (heap example_state) (PObj (AList.update ''Auth''
                 (Val (Obj [(''Token'', lookup ?ta ''token''), (''Sign'', lookup ?ta ''sign''),
                            (''Cuit'', CUIT example_afip)]))
                 (case ?ps of None \<Rightarrow> [] | Some ps \<Rightarrow> ps))))
              Undefined]"
    by (elim impE allE [of _ ?ta]) assumption+
  then have c: "events_since example_state (snd (executeRequest example_afip example_state ''FECompUltimoAutorizado'' ?ps Undefined)) =
     [TA ''ws_sr_constancia_inscripcion'',
      Soap ''FECompUltimoAutorizado''
        (Obj [(''PtoVta'', Num 1), (''CbteTipo'', Num 6),
              (''Auth'', Obj [(''Token'', Str ''DT''), (''Sign'', Str ''DS''), (''Cuit'', Num 20111111112)])])
        Undefined]"
    by (simp add: example_afip_def mock_afip_def)
  from h1 have h1a: "''FECompUltimoAutorizado'' \<noteq> ''FEDummy''" and h1b: "\<not> truthy Undefined"
    by (rule conjunct1, rule conjunct2)
  show ?thesis
    by (intro conjI) (rule h1a h1b h2 c)+
qed

end
